theory Spec2Isabelle
  imports Complex_Main "HOL-Library.Char_ord" "HOL-Library.List_Lexorder" "HOL-Library.Log_Nat"
begin

section \<open>JavaScript numbers\<close>

text \<open>
  Every number of the program is a JavaScript number. The model keeps the three special
  values of that type, which is where a division by zero ends up, and takes a finite value
  as the real number it denotes. \<open>Fin 0 / Fin 0\<close> is \<open>NaN\<close>, a positive number over
  zero is \<open>PInf\<close>, and every operation on \<open>NaN\<close> is \<open>NaN\<close>. The sign of zero is
  not kept.

  The operations of this section are exact. The cost calculator, the statistics and the
  advisor are read with them: what is said of their results is said up to rounding. The
  velocity correlator is read with the rounded operations of the section on doubles.
\<close>

datatype jsnum = Fin real | PInf | NInf | NaN

fun jneg :: "jsnum \<Rightarrow> jsnum" where
  "jneg (Fin a) = Fin (- a)"
| "jneg PInf = NInf"
| "jneg NInf = PInf"
| "jneg NaN = NaN"

fun jadd :: "jsnum \<Rightarrow> jsnum \<Rightarrow> jsnum" where
  "jadd (Fin a) (Fin b) = Fin (a + b)"
| "jadd NaN _ = NaN"
| "jadd _ NaN = NaN"
| "jadd PInf NInf = NaN"
| "jadd NInf PInf = NaN"
| "jadd PInf _ = PInf"
| "jadd _ PInf = PInf"
| "jadd NInf _ = NInf"
| "jadd _ NInf = NInf"

definition jsub :: "jsnum \<Rightarrow> jsnum \<Rightarrow> jsnum" where
  "jsub a b = jadd a (jneg b)"

text \<open>The sign of a product or quotient with an infinite operand.\<close>

definition inf_of_sign :: "bool \<Rightarrow> jsnum" where
  "inf_of_sign positive = (if positive then PInf else NInf)"

fun jmul :: "jsnum \<Rightarrow> jsnum \<Rightarrow> jsnum" where
  "jmul (Fin a) (Fin b) = Fin (a * b)"
| "jmul NaN _ = NaN"
| "jmul _ NaN = NaN"
| "jmul (Fin a) PInf = (if a = 0 then NaN else inf_of_sign (0 < a))"
| "jmul (Fin a) NInf = (if a = 0 then NaN else inf_of_sign (a < 0))"
| "jmul PInf (Fin b) = (if b = 0 then NaN else inf_of_sign (0 < b))"
| "jmul NInf (Fin b) = (if b = 0 then NaN else inf_of_sign (b < 0))"
| "jmul PInf PInf = PInf"
| "jmul NInf NInf = PInf"
| "jmul PInf NInf = NInf"
| "jmul NInf PInf = NInf"

fun jdiv :: "jsnum \<Rightarrow> jsnum \<Rightarrow> jsnum" where
  "jdiv (Fin a) (Fin b) =
     (if b = 0 then (if a = 0 then NaN else inf_of_sign (0 < a)) else Fin (a / b))"
| "jdiv NaN _ = NaN"
| "jdiv _ NaN = NaN"
| "jdiv (Fin a) _ = Fin 0"
| "jdiv PInf (Fin b) = inf_of_sign (0 \<le> b)"
| "jdiv NInf (Fin b) = inf_of_sign (b < 0)"
| "jdiv _ _ = NaN"

text \<open>\<open>a > b\<close>: false as soon as one side is \<open>NaN\<close>.\<close>

fun jgt :: "jsnum \<Rightarrow> jsnum \<Rightarrow> bool" where
  "jgt (Fin a) (Fin b) = (b < a)"
| "jgt NaN _ = False"
| "jgt _ NaN = False"
| "jgt PInf PInf = False"
| "jgt PInf _ = True"
| "jgt NInf _ = False"
| "jgt (Fin a) NInf = True"
| "jgt (Fin a) PInf = False"

text \<open>\<open>a === b\<close> on numbers: \<open>NaN\<close> equals nothing, itself included.\<close>

definition jseq :: "jsnum \<Rightarrow> jsnum \<Rightarrow> bool" where
  "jseq a b = (a \<noteq> NaN \<and> a = b)"

text \<open>Truthiness of a number: \<open>0\<close> and \<open>NaN\<close> are falsy.\<close>

definition truthy :: "jsnum \<Rightarrow> bool" where
  "truthy a = (a \<noteq> NaN \<and> a \<noteq> Fin 0)"

text \<open>\<open>a || b\<close> on numbers.\<close>

definition jor :: "jsnum \<Rightarrow> jsnum \<Rightarrow> jsnum" where
  "jor a b = (if truthy a then a else b)"

text \<open>\<open>Math.sqrt\<close>: \<open>NaN\<close> below zero.\<close>

fun js_sqrt :: "jsnum \<Rightarrow> jsnum" where
  "js_sqrt (Fin a) = (if a < 0 then NaN else Fin (sqrt a))"
| "js_sqrt PInf = PInf"
| "js_sqrt NInf = NaN"
| "js_sqrt NaN = NaN"

text \<open>
  A numeric field of a stored record is a finite number or is absent (\<open>None\<close>:
  \<open>undefined\<close>). Read in arithmetic an absent field is \<open>NaN\<close>; \<open>field || 0\<close>
  is \<open>0\<close> for an absent field.
\<close>

definition num_or0 :: "real option \<Rightarrow> jsnum" where
  "num_or0 v = (case v of None \<Rightarrow> jor NaN (Fin 0) | Some x \<Rightarrow> jor (Fin x) (Fin 0))"

text \<open>\<open>xs.reduce((a, b) => a + b, 0)\<close>, in exact arithmetic.\<close>

definition jsum :: "jsnum list \<Rightarrow> jsnum" where
  "jsum xs = foldl jadd (Fin 0) xs"

section \<open>The host\<close>

text \<open>
  What the program calls and does not define: \<open>JSON.parse\<close> on a serialized role list
  (\<open>None\<close> when it throws), the time value in milliseconds since the epoch that
  \<open>new Date(string)\<close> reads from a date string (\<open>None\<close> for an invalid date), the
  currency formatter of \<open>Intl.NumberFormat\<close>, and \<open>Number.prototype.toFixed\<close>.
\<close>

record host =
  JSON_parse :: "string \<Rightarrow> string list option"
  Date_parse :: "string \<Rightarrow> int option"
  Intl_format :: "string \<Rightarrow> jsnum \<Rightarrow> string"
  toFixed :: "jsnum \<Rightarrow> nat \<Rightarrow> string"

section \<open>The cost calculator\<close>

record roleRate =
  roleId :: string
  roleName :: string
  hourlyRate :: real

text \<open>\<open>attendeeRoles\<close> of a meeting: absent, an array of role ids, or a string.\<close>

datatype attendee_roles = RolesAbsent | RolesArray "string list" | RolesString string

record meeting =
  durationMinutes :: real
  attendeeRoles :: attendee_roles
  attendeeCount :: "real option"

text \<open>The two shapes of a breakdown line.\<close>

datatype breakdown_entry =
  RoleLine (line_role: string) (line_roleId: string) (line_hourlyRate: jsnum)
    (line_hours: jsnum) (line_cost: jsnum)
| AverageLine (line_role: string) (line_hourlyRate: jsnum) (line_attendeeCount: real)
    (line_hours: jsnum) (line_cost: jsnum)

record cost_result =
  totalCost :: jsnum
  breakdown :: "breakdown_entry list"
  costPerMinute :: jsnum
  costPerHour :: jsnum
  formattedCost :: string

definition formatCurrency :: "host \<Rightarrow> jsnum \<Rightarrow> string" where
  "formatCurrency h amount = Intl_format h ''USD'' amount"

text \<open>
  \<open>typeof attendeeRoles === 'string' ? JSON.parse(attendeeRoles) : attendeeRoles || []\<close>,
  inside \<open>try\<close>; the \<open>catch\<close> gives the empty list.
\<close>

definition parse_roles :: "host \<Rightarrow> attendee_roles \<Rightarrow> string list" where
  "parse_roles h a =
     (case a of
        RolesString s \<Rightarrow> (case JSON_parse h s of None \<Rightarrow> [] | Some rs \<Rightarrow> rs)
      | RolesArray rs \<Rightarrow> rs
      | RolesAbsent \<Rightarrow> [])"

text \<open>\<open>roleRates.find(r => r.roleId === roleId)\<close>: the first entry with that id.\<close>

definition find_rate :: "roleRate list \<Rightarrow> string \<Rightarrow> roleRate option" where
  "find_rate roleRates rid = find (\<lambda>r. roleId r = rid) roleRates"

text \<open>One turn of the loop over \<open>roles\<close>, on the pair \<open>(totalCost, breakdown)\<close>.\<close>

definition role_step ::
  "real \<Rightarrow> roleRate list \<Rightarrow> jsnum \<times> breakdown_entry list \<Rightarrow> string
     \<Rightarrow> jsnum \<times> breakdown_entry list" where
  "role_step d roleRates acc rid =
     (case find_rate roleRates rid of
        None \<Rightarrow> acc
      | Some rate \<Rightarrow>
          (let cost = jmul (jdiv (Fin d) (Fin 60)) (Fin (hourlyRate rate))
           in (jadd (fst acc) cost,
               snd acc @ [RoleLine (roleName rate) (roleId rate) (Fin (hourlyRate rate))
                            (jdiv (Fin d) (Fin 60)) cost])))"

text \<open>\<open>roleRates.reduce((sum, r) => sum + r.hourlyRate, 0) / roleRates.length\<close>\<close>

definition average_rate :: "roleRate list \<Rightarrow> jsnum" where
  "average_rate roleRates =
     jdiv (foldl (\<lambda>sum r. jadd sum (Fin (hourlyRate r))) (Fin 0) roleRates)
          (Fin (real (length roleRates)))"

text \<open>
  The branch on \<open>roles.length\<close> and \<open>attendeeCount\<close>: the values of \<open>totalCost\<close>
  and \<open>breakdown\<close> when the function reaches its \<open>return\<close>. An absent
  \<open>attendeeCount\<close> is falsy, as are \<open>0\<close> and \<open>NaN\<close>.
\<close>

definition accrue ::
  "real \<Rightarrow> string list \<Rightarrow> real option \<Rightarrow> roleRate list \<Rightarrow> jsnum \<times> breakdown_entry list" where
  "accrue d roles count roleRates =
     (if length roles > 0 then foldl (role_step d roleRates) (Fin 0, []) roles
      else (case count of
              None \<Rightarrow> (Fin 0, [])
            | Some c \<Rightarrow>
                if truthy (Fin c) then
                  (let avgRate = average_rate roleRates;
                       t = jmul (jmul (jdiv (Fin d) (Fin 60)) avgRate) (Fin c)
                   in (t, [AverageLine ''Average (estimated)'' avgRate c
                             (jdiv (Fin d) (Fin 60)) t]))
                else (Fin 0, [])))"

definition calculateMeetingCost :: "host \<Rightarrow> meeting \<Rightarrow> roleRate list \<Rightarrow> cost_result" where
  "calculateMeetingCost h m roleRates =
     (let d = durationMinutes m;
          roles = parse_roles h (attendeeRoles m);
          acc = accrue d roles (attendeeCount m) roleRates;
          total = fst acc
      in \<lparr> totalCost = total,
           breakdown = snd acc,
           costPerMinute = (if jgt (Fin d) (Fin 0) then jdiv total (Fin d) else Fin 0),
           costPerHour = jdiv total (jor (jdiv (Fin d) (Fin 60)) (Fin 1)),
           formattedCost = formatCurrency h total \<rparr>)"

section \<open>The resolver: role rates and the cost of a new meeting\<close>

text \<open>The built-in rate table of \<open>getRoleRates\<close>.\<close>

definition defaultRates :: "roleRate list" where
  "defaultRates =
     [\<lparr>roleId = ''engineer'', roleName = ''Engineer'', hourlyRate = 75\<rparr>,
      \<lparr>roleId = ''senior-engineer'', roleName = ''Senior Engineer'', hourlyRate = 100\<rparr>,
      \<lparr>roleId = ''tech-lead'', roleName = ''Tech Lead'', hourlyRate = 125\<rparr>,
      \<lparr>roleId = ''pm'', roleName = ''Product Manager'', hourlyRate = 90\<rparr>,
      \<lparr>roleId = ''designer'', roleName = ''Designer'', hourlyRate = 80\<rparr>,
      \<lparr>roleId = ''manager'', roleName = ''Engineering Manager'', hourlyRate = 130\<rparr>,
      \<lparr>roleId = ''exec'', roleName = ''Executive'', hourlyRate = 200\<rparr>]"

text \<open>
  \<open>stored || defaultRates\<close>, on what \<open>storage.get('config:roleRates')\<close> returned: an
  array, empty or not, is truthy and is returned as it is.
\<close>

definition getRoleRates :: "roleRate list option \<Rightarrow> roleRate list" where
  "getRoleRates stored = (case stored of None \<Rightarrow> defaultRates | Some rates \<Rightarrow> rates)"

text \<open>
  The payload of \<open>addMeeting\<close>. The two numeric fields are held as what \<open>parseInt\<close>
  makes of them (\<open>None\<close>: \<open>NaN\<close>); \<open>attendeeRoles\<close> is a string or is absent.
\<close>

record add_payload =
  p_durationMinutes :: "int option"
  p_attendeeCount :: "int option"
  p_attendeeRoles :: "string option"

text \<open>\<open>parseInt(v) || dflt\<close>\<close>

definition parseInt_or :: "int option \<Rightarrow> int \<Rightarrow> jsnum" where
  "parseInt_or v dflt =
     jor (case v of None \<Rightarrow> NaN | Some n \<Rightarrow> Fin (real_of_int n)) (Fin (real_of_int dflt))"

text \<open>
  The value \<open>addMeeting\<close> binds to \<open>calculatedCost\<close>, from the rate table in force: the
  role list is \<open>attendeeRoles ? JSON.parse(attendeeRoles) : []\<close> under \<open>try\<close>, and the
  \<open>else\<close> branch has no test on the attendee count.
\<close>

definition addMeeting_calculatedCost :: "host \<Rightarrow> roleRate list \<Rightarrow> add_payload \<Rightarrow> jsnum" where
  "addMeeting_calculatedCost h roleRates payload =
     (let parsedDuration = parseInt_or (p_durationMinutes payload) 30;
          parsedAttendeeCount = parseInt_or (p_attendeeCount payload) 1;
          roles = (case p_attendeeRoles payload of
                     None \<Rightarrow> []
                   | Some s \<Rightarrow>
                       if s = [] then []
                       else (case JSON_parse h s of None \<Rightarrow> [] | Some rs \<Rightarrow> rs))
      in if length roles > 0 then
           foldl (\<lambda>calculatedCost rid.
                    case find_rate roleRates rid of
                      None \<Rightarrow> calculatedCost
                    | Some rate \<Rightarrow>
                        jadd calculatedCost
                          (jmul (jdiv parsedDuration (Fin 60)) (Fin (hourlyRate rate))))
                 (Fin 0) roles
         else
           (let avgRate = average_rate roleRates
            in jmul (jmul (jdiv parsedDuration (Fin 60)) avgRate) parsedAttendeeCount))"

section \<open>Dates\<close>

text \<open>
  A valid \<open>Date\<close> is its time value, an integer count of milliseconds since
  1970-01-01T00:00Z. The accessors \<open>getFullYear\<close>, \<open>getMonth\<close> and \<open>getDay\<close> are
  those of a host whose local time is UTC. The two conversions between a day number and a
  calendar date are the proleptic Gregorian ones.
\<close>

definition msPerDay :: int where
  "msPerDay = 86400000"

definition days_from_civil :: "int \<Rightarrow> int \<Rightarrow> int \<Rightarrow> int" where
  "days_from_civil y m d =
     (let y' = (if m \<le> 2 then y - 1 else y);
          era = y' div 400;
          yoe = y' - era * 400;
          doy = (153 * (if m > 2 then m - 3 else m + 9) + 2) div 5 + d - 1;
          doe = yoe * 365 + yoe div 4 - yoe div 100 + doy
      in era * 146097 + doe - 719468)"

definition civil_from_days :: "int \<Rightarrow> int \<times> int \<times> int" where
  "civil_from_days z =
     (let z' = z + 719468;
          era = z' div 146097;
          doe = z' - era * 146097;
          yoe = (doe - doe div 1460 + doe div 36524 - doe div 146096) div 365;
          doy = doe - (365 * yoe + yoe div 4 - yoe div 100);
          mp = (5 * doy + 2) div 153;
          d = doy - (153 * mp + 2) div 5 + 1;
          m = (if mp < 10 then mp + 3 else mp - 9)
      in (yoe + era * 400 + (if m \<le> 2 then 1 else 0), m, d))"

definition getFullYear :: "int \<Rightarrow> int" where
  "getFullYear t = fst (civil_from_days (t div msPerDay))"

definition getMonth :: "int \<Rightarrow> int" where
  "getMonth t = fst (snd (civil_from_days (t div msPerDay))) - 1"

definition getDate :: "int \<Rightarrow> int" where
  "getDate t = snd (snd (civil_from_days (t div msPerDay)))"

text \<open>Day of the week, Sunday being 0: the epoch was a Thursday.\<close>

definition getDay :: "int \<Rightarrow> int" where
  "getDay t = (t div msPerDay + 4) mod 7"

text \<open>
  \<open>new Date(year, 0, 1)\<close>: midnight of the first of January; a year from 0 to 99 is read
  as 1900 plus the year.
\<close>

definition Date_jan1 :: "int \<Rightarrow> int" where
  "Date_jan1 year =
     days_from_civil (if 0 \<le> year \<and> year \<le> 99 then 1900 + year else year) 1 1 * msPerDay"

subsection \<open>Numbers as strings\<close>

fun show_nat :: "nat \<Rightarrow> string" where
  "show_nat n =
     (if n < 10 then [''0123456789'' ! n]
      else show_nat (n div 10) @ [''0123456789'' ! (n mod 10)])"

definition show_int :: "int \<Rightarrow> string" where
  "show_int i = (if i < 0 then CHR ''-'' # show_nat (nat (- i)) else show_nat (nat i))"

text \<open>\<open>s.padStart(n, c)\<close> for a one-character pad.\<close>

definition padStart :: "nat \<Rightarrow> char \<Rightarrow> string \<Rightarrow> string" where
  "padStart n c s = replicate (n - length s) c @ s"

text \<open>
  \<open>date.toISOString().split('T')[0]\<close> of a valid date: four digits of year from 0 to
  9999, a sign and six digits otherwise.
\<close>

definition iso_day :: "int \<Rightarrow> string" where
  "iso_day t =
     (let y = getFullYear t;
          year = (if 0 \<le> y \<and> y \<le> 9999 then padStart 4 CHR ''0'' (show_int y)
                  else (if y < 0 then CHR ''-'' else CHR ''+'') # padStart 6 CHR ''0'' (show_int \<bar>y\<bar>))
      in year @ ''-'' @ padStart 2 CHR ''0'' (show_int (getMonth t + 1))
              @ ''-'' @ padStart 2 CHR ''0'' (show_int (getDate t)))"

section \<open>Period buckets and cost trends\<close>

text \<open>
  A meeting as the store returns it. A numeric field is a finite number or is absent; the
  date is the stored string.
\<close>

record stored_meeting =
  m_date :: string
  m_durationMinutes :: "real option"
  m_meetingType :: "string option"
  m_calculatedCost :: "real option"

datatype js_error = RangeError

text \<open>
  An object with string keys is the list of its own properties, in the order the keys
  were first set: \<open>obj_set\<close> is the assignment \<open>obj[k] = v\<close> and \<open>map_of\<close> reads an own
  property. The lookup \<open>obj[k]\<close> of the language also finds what every object inherits
  from \<open>Object.prototype\<close>, under the names below; each of them is a function or an
  object, so it is truthy.
\<close>

definition Object_prototype_keys :: "string list" where
  "Object_prototype_keys =
     [''constructor'', ''__defineGetter__'', ''__defineSetter__'', ''hasOwnProperty'',
      ''__lookupGetter__'', ''__lookupSetter__'', ''isPrototypeOf'', ''propertyIsEnumerable'',
      ''toString'', ''valueOf'', ''__proto__'', ''toLocaleString'']"

fun obj_set :: "string \<Rightarrow> 'v \<Rightarrow> (string \<times> 'v) list \<Rightarrow> (string \<times> 'v) list" where
  "obj_set k v [] = [(k, v)]"
| "obj_set k v ((k', v') # kvs) =
     (if k = k' then (k, v) # kvs else (k', v') # obj_set k v kvs)"

text \<open>
  The key of a meeting's date. \<open>toISOString\<close> throws a \<open>RangeError\<close> on an invalid
  date; the accessors return \<open>NaN\<close> there. Every key has a \<open>-\<close> in it, which no
  inherited name has, so \<open>grouped[key]\<close> reads own properties only.
\<close>

definition week_key :: "int \<Rightarrow> string" where
  "week_key date =
     (let startOfYear = Date_jan1 (getFullYear date);
          weekNum = \<lceil>(real_of_int (date - startOfYear) / 86400000
                       + real_of_int (getDay startOfYear) + 1) / 7\<rceil>
      in show_int (getFullYear date) @ ''-W'' @ padStart 2 CHR ''0'' (show_int weekNum))"

definition month_key :: "int \<Rightarrow> string" where
  "month_key date =
     show_int (getFullYear date) @ ''-'' @ padStart 2 CHR ''0'' (show_int (getMonth date + 1))"

definition period_key :: "string \<Rightarrow> int option \<Rightarrow> js_error + string" where
  "period_key groupBy date =
     (if groupBy = ''week'' then
        Inr (case date of None \<Rightarrow> ''NaN-WNaN'' | Some t \<Rightarrow> week_key t)
      else if groupBy = ''month'' then
        Inr (case date of None \<Rightarrow> ''NaN-NaN'' | Some t \<Rightarrow> month_key t)
      else (case date of None \<Rightarrow> Inl RangeError | Some t \<Rightarrow> Inr (iso_day t)))"

fun group_loop ::
  "host \<Rightarrow> string \<Rightarrow> stored_meeting list \<Rightarrow> (string \<times> stored_meeting list) list
     \<Rightarrow> js_error + (string \<times> stored_meeting list) list" where
  "group_loop h groupBy [] grouped = Inr grouped"
| "group_loop h groupBy (meeting # rest) grouped =
     (case period_key groupBy (Date_parse h (m_date meeting)) of
        Inl e \<Rightarrow> Inl e
      | Inr key \<Rightarrow>
          group_loop h groupBy rest
            (obj_set key
               ((case map_of grouped key of None \<Rightarrow> [] | Some ms \<Rightarrow> ms) @ [meeting])
               grouped))"

definition groupMeetingsByPeriod ::
  "host \<Rightarrow> stored_meeting list \<Rightarrow> string \<Rightarrow> js_error + (string \<times> stored_meeting list) list" where
  "groupMeetingsByPeriod h meetings groupBy = group_loop h groupBy meetings []"

record period_bucket =
  pb_period :: string
  pb_totalCost :: jsnum
  pb_meetingCount :: nat
  pb_totalHours :: jsnum
  pb_avgCostPerMeeting :: jsnum

text \<open>\<open>ms.reduce((sum, m) => sum + (m.calculatedCost || 0), 0)\<close> and the like for minutes.\<close>

definition sum_cost :: "stored_meeting list \<Rightarrow> jsnum" where
  "sum_cost ms = foldl (\<lambda>sum m. jadd sum (num_or0 (m_calculatedCost m))) (Fin 0) ms"

definition sum_minutes :: "stored_meeting list \<Rightarrow> jsnum" where
  "sum_minutes ms = foldl (\<lambda>sum m. jadd sum (num_or0 (m_durationMinutes m))) (Fin 0) ms"

definition bucket_of :: "string \<times> stored_meeting list \<Rightarrow> period_bucket" where
  "bucket_of entry =
     (case entry of (period, periodMeetings) \<Rightarrow>
        \<lparr> pb_period = period,
          pb_totalCost = sum_cost periodMeetings,
          pb_meetingCount = length periodMeetings,
          pb_totalHours = jdiv (sum_minutes periodMeetings) (Fin 60),
          pb_avgCostPerMeeting =
            (if length periodMeetings > 0
             then jdiv (sum_cost periodMeetings) (Fin (real (length periodMeetings)))
             else Fin 0) \<rparr>)"

text \<open>
  The buckets in ascending order of their period keys. \<open>Array.prototype.sort\<close> is stable;
  on the characters of a period key (digits, \<open>-\<close>, \<open>W\<close>, \<open>N\<close>, \<open>a\<close>, \<open>+\<close>)
  \<open>localeCompare\<close> is taken as the lexicographic order of the character codes.
\<close>

definition calculateCostTrends ::
  "host \<Rightarrow> stored_meeting list \<Rightarrow> string \<Rightarrow> js_error + period_bucket list" where
  "calculateCostTrends h meetings groupBy =
     (if length meetings = 0 then Inr []
      else (case groupMeetingsByPeriod h meetings groupBy of
              Inl e \<Rightarrow> Inl e
            | Inr grouped \<Rightarrow> Inr (sort_key pb_period (map bucket_of grouped))))"

section \<open>The dashboard statistics\<close>

record type_bucket =
  tb_cost :: jsnum
  tb_count :: jsnum
  tb_hours :: jsnum

record stats =
  st_totalCost :: jsnum
  st_totalHours :: jsnum
  st_meetingCount :: nat
  st_costByType :: "(string \<times> type_bucket) list"
  st_trends :: "period_bucket list"
  st_trendPercentage :: jsnum
  st_dateRange :: string

record dashboard_result =
  success :: bool
  error :: "js_error option"
  stats :: stats

text \<open>\<open>m.meetingType || 'ad-hoc'\<close>: an absent or empty type is \<open>ad-hoc\<close>.\<close>

definition type_of_meeting :: "stored_meeting \<Rightarrow> string" where
  "type_of_meeting m =
     (case m_meetingType m of None \<Rightarrow> ''ad-hoc'' | Some t \<Rightarrow> if t = [] then ''ad-hoc'' else t)"

text \<open>
  One turn of the loop that fills \<open>costByType\<close>. Where the type is not an own key but
  an inherited name, \<open>costByType[type]\<close> is truthy: no bucket is made, and the three
  updates go to the inherited object, not to \<open>costByType\<close>.
\<close>

definition add_meeting :: "type_bucket \<Rightarrow> stored_meeting \<Rightarrow> type_bucket" where
  "add_meeting b m =
     \<lparr> tb_cost = jadd (tb_cost b) (num_or0 (m_calculatedCost m)),
       tb_count = jadd (tb_count b) (Fin 1),
       tb_hours = jadd (tb_hours b) (jdiv (num_or0 (m_durationMinutes m)) (Fin 60)) \<rparr>"

definition type_step ::
  "(string \<times> type_bucket) list \<Rightarrow> stored_meeting \<Rightarrow> (string \<times> type_bucket) list" where
  "type_step costByType m =
     (let type = type_of_meeting m
      in case map_of costByType type of
           Some b \<Rightarrow> obj_set type (add_meeting b m) costByType
         | None \<Rightarrow>
             if type \<in> set Object_prototype_keys then costByType
             else obj_set type
                    (add_meeting \<lparr>tb_cost = Fin 0, tb_count = Fin 0, tb_hours = Fin 0\<rparr> m)
                    costByType)"

text \<open>The trend percentage, from the weekly buckets.\<close>

definition trend_percentage :: "period_bucket list \<Rightarrow> jsnum" where
  "trend_percentage trends =
     (if length trends \<ge> 2 then
        (let currentWeek = jor (pb_totalCost (trends ! (length trends - 1))) (Fin 0);
             previousWeek = jor (pb_totalCost (trends ! (length trends - 2))) (Fin 0)
         in if jgt previousWeek (Fin 0)
            then jmul (jdiv (jsub currentWeek previousWeek) previousWeek) (Fin 100)
            else Fin 0)
      else Fin 0)"

definition window_ms :: "string \<Rightarrow> int" where
  "window_ms dateRange =
     (if dateRange = ''last-week'' then 7 * 24 * 60 * 60 * 1000
      else if dateRange = ''last-month'' then 30 * 24 * 60 * 60 * 1000
      else if dateRange = ''last-quarter'' then 90 * 24 * 60 * 60 * 1000
      else 30 * 24 * 60 * 60 * 1000)"

text \<open>The meetings the statistics are taken over: \<open>new Date(m.date) >= startDate\<close>.\<close>

definition filteredMeetings :: "host \<Rightarrow> int \<Rightarrow> string \<Rightarrow> stored_meeting list \<Rightarrow> stored_meeting list" where
  "filteredMeetings h now dateRange meetings =
     filter (\<lambda>m. case Date_parse h (m_date m) of
                    None \<Rightarrow> False
                  | Some t \<Rightarrow> now - window_ms dateRange \<le> t) meetings"

text \<open>
  \<open>getDashboardStats\<close>, given the clock (\<open>now\<close>, the time value of \<open>new Date()\<close>), what
  \<open>storage.get('meetings')\<close> returned and the \<open>dateRange\<close> of the payload. An exception
  is caught and answered with a zeroed snapshot.
\<close>

definition getDashboardStats ::
  "host \<Rightarrow> int \<Rightarrow> stored_meeting list option \<Rightarrow> string option \<Rightarrow> dashboard_result" where
  "getDashboardStats h now stored payload_dateRange =
     (let dateRange = (case payload_dateRange of None \<Rightarrow> ''last-month'' | Some r \<Rightarrow> r);
          meetings = (case stored of None \<Rightarrow> [] | Some ms \<Rightarrow> ms);
          filtered = filteredMeetings h now dateRange meetings
      in case calculateCostTrends h filtered ''week'' of
           Inl e \<Rightarrow>
             \<lparr> success = False, error = Some e,
               stats = \<lparr> st_totalCost = Fin 0, st_totalHours = Fin 0, st_meetingCount = 0,
                         st_costByType = [], st_trends = [], st_trendPercentage = Fin 0,
                         st_dateRange = [] \<rparr> \<rparr>
         | Inr trends \<Rightarrow>
             \<lparr> success = True, error = None,
               stats = \<lparr> st_totalCost = sum_cost filtered,
                         st_totalHours = jdiv (sum_minutes filtered) (Fin 60),
                         st_meetingCount = length filtered,
                         st_costByType = foldl type_step [] filtered,
                         st_trends = trends,
                         st_trendPercentage = trend_percentage trends,
                         st_dateRange = dateRange \<rparr> \<rparr>)"

section \<open>Arithmetic in doubles\<close>

text \<open>
  The velocity correlator tests a computed value against exactly 0 and its result is held
  against exactly 1 and -1, so there the rounding of every operation decides. Its numbers
  are binary64 values: a result is the exact result rounded to the nearest value with 53
  significant bits, ties to the even one, exponents from -1022 to 1023, an overflow giving
  an infinity.

  For \<open>a > 0\<close>, \<open>binade a\<close> is the exponent \<open>e\<close> with \<open>2^e \<le> a < 2^(e+1)\<close>.
\<close>

definition binade :: "real \<Rightarrow> int" where
  "binade a =
     (if 1 \<le> a then int (floorlog 2 (nat \<lfloor>a\<rfloor>)) - 1
      else - int (floorlog 2 (nat (\<lceil>1 / a\<rceil> - 1))))"

definition pow2 :: "int \<Rightarrow> real" where
  "pow2 e = (if 0 \<le> e then 2 ^ nat e else 1 / 2 ^ nat (- e))"

definition nearest_even :: "real \<Rightarrow> int" where
  "nearest_even q =
     (let f = \<lfloor>q\<rfloor>; d = q - real_of_int f
      in if d < 1 / 2 then f else if 1 / 2 < d then f + 1 else if even f then f else f + 1)"

definition round64 :: "real \<Rightarrow> jsnum" where
  "round64 x =
     (if x = 0 then Fin 0
      else
        (let ulp = pow2 (max (binade \<bar>x\<bar>) (- 1022) - 52);
             r = real_of_int (nearest_even (\<bar>x\<bar> / ulp)) * ulp
         in if pow2 1024 \<le> r then inf_of_sign (0 < x) else Fin (if 0 < x then r else - r)))"

fun rnd :: "jsnum \<Rightarrow> jsnum" where
  "rnd (Fin x) = round64 x"
| "rnd PInf = PInf"
| "rnd NInf = NInf"
| "rnd NaN = NaN"

text \<open>
  The operations on doubles: \<open>+\<close>, \<open>-\<close>, \<open>*\<close>, \<open>/\<close>, \<open>Math.sqrt\<close> and \<open>a ** 2\<close>,
  which is the rounded product \<open>a * a\<close>.
\<close>

definition dadd :: "jsnum \<Rightarrow> jsnum \<Rightarrow> jsnum" where
  "dadd a b = rnd (jadd a b)"

definition dsub :: "jsnum \<Rightarrow> jsnum \<Rightarrow> jsnum" where
  "dsub a b = rnd (jsub a b)"

definition dmul :: "jsnum \<Rightarrow> jsnum \<Rightarrow> jsnum" where
  "dmul a b = rnd (jmul a b)"

definition ddiv :: "jsnum \<Rightarrow> jsnum \<Rightarrow> jsnum" where
  "ddiv a b = rnd (jdiv a b)"

definition dsqrt :: "jsnum \<Rightarrow> jsnum" where
  "dsqrt a = rnd (js_sqrt a)"

definition dsq :: "jsnum \<Rightarrow> jsnum" where
  "dsq a = dmul a a"

section \<open>The velocity correlator\<close>

text \<open>
  A field of a snapshot holds the number as the stored record writes it, or is absent;
  read, it is the double nearest to that number.
\<close>

record sprint_snapshot =
  totalMeetingHours :: "real option"
  completedPoints :: "real option"

definition calculateCorrelation :: "sprint_snapshot list \<Rightarrow> jsnum" where
  "calculateCorrelation sprintSnapshots =
     (let n = length sprintSnapshots
      in if n < 3 then Fin 0
         else
           (let meetingHours = map (\<lambda>s. rnd (num_or0 (totalMeetingHours s))) sprintSnapshots;
                velocities = map (\<lambda>s. rnd (num_or0 (completedPoints s))) sprintSnapshots;
                sumX = foldl (\<lambda>a b. dadd a b) (Fin 0) meetingHours;
                sumY = foldl (\<lambda>a b. dadd a b) (Fin 0) velocities;
                sumXY = foldl (\<lambda>sum (i, x).
                                 dadd sum (dmul x (if i < length velocities then velocities ! i
                                                   else NaN)))
                              (Fin 0) (enumerate 0 meetingHours);
                sumX2 = foldl (\<lambda>sum x. dadd sum (dmul x x)) (Fin 0) meetingHours;
                sumY2 = foldl (\<lambda>sum y. dadd sum (dmul y y)) (Fin 0) velocities;
                numerator = dsub (dmul (Fin (real n)) sumXY) (dmul sumX sumY);
                denominator =
                  dsqrt (dmul (dsub (dmul (Fin (real n)) sumX2) (dsq sumX))
                              (dsub (dmul (Fin (real n)) sumY2) (dsq sumY)))
            in if jseq denominator (Fin 0) then Fin 0 else ddiv numerator denominator))"

section \<open>The optimization advisor\<close>

datatype priority_level = High | Medium | Low

text \<open>\<open>priorityOrder = { high: 0, medium: 1, low: 2 }\<close>\<close>

fun priorityOrder :: "priority_level \<Rightarrow> nat" where
  "priorityOrder High = 0"
| "priorityOrder Medium = 1"
| "priorityOrder Low = 2"

record suggestion =
  priority :: priority_level
  category :: string
  title :: string
  description :: string
  potentialSavings :: jsnum

record optimization_result =
  suggestions :: "suggestion list"
  totalPotentialSavings :: jsnum
  summary :: string

text \<open>
  The six checks, in the order of the source; each gives the suggestions it pushes, none
  or one. An absent \<open>costByType\<close> is the empty object.
\<close>

definition check_trend :: "host \<Rightarrow> stats \<Rightarrow> suggestion list" where
  "check_trend h s =
     (if jgt (st_trendPercentage s) (Fin 10) then
        [\<lparr> priority = High, category = ''cost-trend'',
           title = ''Meeting costs are increasing'',
           description = ''Meeting costs have increased by '' @ toFixed h (st_trendPercentage s) 1
             @ ''% compared to the previous period. Consider auditing recurring meetings.'',
           potentialSavings = jmul (st_totalCost s) (Fin 0.1) \<rparr>]
      else [])"

definition check_standup :: "host \<Rightarrow> stats \<Rightarrow> suggestion list" where
  "check_standup h s =
     (case map_of (st_costByType s) ''standup'' of
        None \<Rightarrow> []
      | Some standupData \<Rightarrow>
          (let avgStandupDuration =
                 jmul (jdiv (tb_hours standupData) (tb_count standupData)) (Fin 60)
           in if jgt avgStandupDuration (Fin 15) then
                [\<lparr> priority = Medium, category = ''standup'',
                   title = ''Standups are running long'',
                   description = ''Average standup duration is '' @ toFixed h avgStandupDuration 0
                     @ '' minutes. Consider async standups or stricter time-boxing to 15 minutes.'',
                   potentialSavings = jmul (tb_cost standupData) (Fin 0.3) \<rparr>]
              else []))"

definition check_adhoc :: "host \<Rightarrow> stats \<Rightarrow> suggestion list" where
  "check_adhoc h s =
     (case map_of (st_costByType s) ''ad-hoc'' of
        None \<Rightarrow> []
      | Some adHocData \<Rightarrow>
          (let adHocPercentage = jmul (jdiv (tb_cost adHocData) (st_totalCost s)) (Fin 100)
           in if jgt adHocPercentage (Fin 30) then
                [\<lparr> priority = High, category = ''ad-hoc'',
                   title = ''High ad-hoc meeting cost'',
                   description = ''Ad-hoc meetings account for '' @ toFixed h adHocPercentage 0
                     @ ''% of meeting costs. Consider better async communication or ''
                     @ ''scheduled office hours.'',
                   potentialSavings = jmul (tb_cost adHocData) (Fin 0.4) \<rparr>]
              else []))"

definition check_load :: "host \<Rightarrow> stats \<Rightarrow> suggestion list" where
  "check_load h s =
     (let avgHoursPerDay = jdiv (st_totalHours s) (Fin 20)
      in if jgt avgHoursPerDay (Fin 3) then
           [\<lparr> priority = High, category = ''time-spent'',
              title = ''High meeting load'',
              description = ''Team averages '' @ toFixed h avgHoursPerDay 1
                @ '' hours/day in meetings. This leaves limited time for deep work. Consider ''
                @ [CHR 0x22] @ ''No Meeting Days'' @ [CHR 0x22]
                @ '' or meeting-free morning blocks.'',
              potentialSavings = jmul (st_totalCost s) (Fin 0.2) \<rparr>]
         else [])"

definition check_total :: "stats \<Rightarrow> suggestion list" where
  "check_total s =
     (if jgt (st_totalCost s) (Fin 10000) then
        [\<lparr> priority = Medium, category = ''general'',
           title = ''Review recurring meetings'',
           description = ''Conduct a quarterly audit of recurring meetings. Many recurring ''
             @ ''meetings continue long after their original purpose is fulfilled.'',
           potentialSavings = jmul (st_totalCost s) (Fin 0.15) \<rparr>]
      else [])"

definition check_count :: "stats \<Rightarrow> suggestion list" where
  "check_count s =
     (if st_meetingCount s > 30 then
        [\<lparr> priority = Low, category = ''attendance'',
           title = ''Consider optional attendees'',
           description = ''Mark some meeting attendees as optional and encourage them to skip ''
             @ ''if not directly needed. Fewer attendees = lower cost per meeting.'',
           potentialSavings = jmul (st_totalCost s) (Fin 0.1) \<rparr>]
      else [])"

text \<open>The suggestions before the sort, in the order the checks pushed them.\<close>

definition pushed :: "host \<Rightarrow> stats \<Rightarrow> suggestion list" where
  "pushed h s =
     check_trend h s @ check_standup h s @ check_adhoc h s @ check_load h s
       @ check_total s @ check_count s"

text \<open>
  \<open>suggestions.sort((a, b) => priorityOrder[a.priority] - priorityOrder[b.priority])\<close>:
  the sort of the language is stable, as is \<open>sort_key\<close>.
\<close>

definition generateOptimizations :: "host \<Rightarrow> stats \<Rightarrow> optimization_result" where
  "generateOptimizations h s =
     (let sorted_suggestions = sort_key (\<lambda>a. priorityOrder (priority a)) (pushed h s);
          total = foldl (\<lambda>sum a. jadd sum (jor (potentialSavings a) (Fin 0))) (Fin 0)
                    sorted_suggestions
      in \<lparr> suggestions = sorted_suggestions,
           totalPotentialSavings = total,
           summary = ''Found '' @ show_nat (length sorted_suggestions)
             @ '' optimization opportunities with potential savings of $''
             @ toFixed h total 0 @ ''/month.'' \<rparr>)"

section \<open>Reference notions and sample inputs\<close>

text \<open>
  The hourly rate the calculator charges for a role id: that of the first entry of the
  table with the id, and nothing for an id the table does not have.
\<close>

definition rate_of :: "roleRate list \<Rightarrow> string \<Rightarrow> real" where
  "rate_of roleRates rid =
     (case find_rate roleRates rid of None \<Rightarrow> 0 | Some rate \<Rightarrow> hourlyRate rate)"

text \<open>Reading a date written \<open>YYYY-MM-DD\<close> as midnight UTC of that day.\<close>

definition digit_of :: "char \<Rightarrow> nat option" where
  "digit_of c =
     (let n = (of_char c :: nat) in if 48 \<le> n \<and> n \<le> 57 then Some (n - 48) else None)"

fun parse_digits :: "string \<Rightarrow> nat \<Rightarrow> nat option" where
  "parse_digits [] acc = Some acc"
| "parse_digits (c # cs) acc =
     (case digit_of c of None \<Rightarrow> None | Some d \<Rightarrow> parse_digits cs (10 * acc + d))"

definition parse_iso_date :: "string \<Rightarrow> int option" where
  "parse_iso_date s =
     (if length s = 10 \<and> s ! 4 = CHR ''-'' \<and> s ! 7 = CHR ''-'' then
        (case (parse_digits (take 4 s) 0, parse_digits (take 2 (drop 5 s)) 0,
               parse_digits (drop 8 s) 0) of
           (Some y, Some m, Some d) \<Rightarrow>
             if civil_from_days (days_from_civil (int y) (int m) (int d)) = (int y, int m, int d)
             then Some (days_from_civil (int y) (int m) (int d) * msPerDay)
             else None
         | _ \<Rightarrow> None)
      else None)"

text \<open>
  A host whose \<open>JSON.parse\<close> always throws, whose formatters print nothing, and that
  reads dates written \<open>YYYY-MM-DD\<close>.
\<close>

definition sample_host :: host where
  "sample_host =
     \<lparr>JSON_parse = (\<lambda>s. None), Date_parse = parse_iso_date,
      Intl_format = (\<lambda>c a. []), toFixed = (\<lambda>a n. [])\<rparr>"

text \<open>The rate table \<open>{engineer: 75, pm: 90}\<close> of the scenarios.\<close>

definition scenario_rates :: "roleRate list" where
  "scenario_rates =
     [\<lparr>roleId = ''engineer'', roleName = ''Engineer'', hourlyRate = 75\<rparr>,
      \<lparr>roleId = ''pm'', roleName = ''Product Manager'', hourlyRate = 90\<rparr>]"

definition scenarioA :: meeting where
  "scenarioA =
     \<lparr>durationMinutes = 60, attendeeRoles = RolesArray [''engineer'', ''pm''],
      attendeeCount = None\<rparr>"

definition scenarioB :: meeting where
  "scenarioB = \<lparr>durationMinutes = 30, attendeeRoles = RolesArray [], attendeeCount = Some 4\<rparr>"

text \<open>An hour-long meeting that lists the role \<open>engineer\<close> twice.\<close>

definition twice_engineer :: meeting where
  "twice_engineer =
     \<lparr>durationMinutes = 60, attendeeRoles = RolesArray [''engineer'', ''engineer''],
      attendeeCount = None\<rparr>"


text \<open>
  Scenario C: ten standups of 2.5 hours in all, 15 minutes on average. \<open>long_standups\<close>
  is the same month with 3 hours of standups, 18 minutes on average.
\<close>

definition scenarioC :: stats where
  "scenarioC =
     \<lparr> st_totalCost = Fin 100, st_totalHours = Fin 2.5, st_meetingCount = 10,
       st_costByType = [(''standup'', \<lparr>tb_cost = Fin 100, tb_count = Fin 10, tb_hours = Fin 2.5\<rparr>)],
       st_trends = [], st_trendPercentage = Fin 0, st_dateRange = ''last-month'' \<rparr>"

definition long_standups :: stats where
  "long_standups = scenarioC \<lparr> st_costByType :=
       [(''standup'', \<lparr>tb_cost = Fin 100, tb_count = Fin 10, tb_hours = Fin 3\<rparr>)] \<rparr>"

text \<open>A month on which each of the six checks fires.\<close>

definition busy_month :: stats where
  "busy_month =
     \<lparr> st_totalCost = Fin 20000, st_totalHours = Fin 80, st_meetingCount = 40,
       st_costByType =
         [(''standup'', \<lparr>tb_cost = Fin 2000, tb_count = Fin 20, tb_hours = Fin 10\<rparr>),
          (''ad-hoc'', \<lparr>tb_cost = Fin 18000, tb_count = Fin 20, tb_hours = Fin 70\<rparr>)],
       st_trends = [], st_trendPercentage = Fin 25, st_dateRange = ''last-month'' \<rparr>"

text \<open>
  The finite reading of numbers: the value of \<open>field || 0\<close> on an optional field, and
  the real number a finite \<open>jsnum\<close> holds.
\<close>

definition val0 :: "real option \<Rightarrow> real" where
  "val0 v = (case v of None \<Rightarrow> 0 | Some x \<Rightarrow> x)"

definition is_fin :: "jsnum \<Rightarrow> bool" where
  "is_fin a = (case a of Fin x \<Rightarrow> True | _ \<Rightarrow> False)"

definition fin_val :: "jsnum \<Rightarrow> real" where
  "fin_val a = (case a of Fin x \<Rightarrow> x | _ \<Rightarrow> 0)"

text \<open>Buckets whose three figures are finite.\<close>

definition fin_bucket :: "type_bucket \<Rightarrow> bool" where
  "fin_bucket b = (is_fin (tb_cost b) \<and> is_fin (tb_count b) \<and> is_fin (tb_hours b))"

text \<open>
  Two stores, read on 2024-01-10 (time value 1704844800000). In \<open>refund_week\<close> the
  first week holds one meeting of minus 60 minutes, which costs minus 75 at the engineer's
  rate; in \<open>growth_weeks\<close> the first week costs 100 and the second 150.
\<close>

definition refund_week :: "stored_meeting list" where
  "refund_week =
     [\<lparr>m_date = ''2024-01-01'', m_durationMinutes = Some (-60), m_meetingType = Some ''planning'',
       m_calculatedCost = Some (-75)\<rparr>,
      \<lparr>m_date = ''2024-01-08'', m_durationMinutes = Some 60, m_meetingType = Some ''planning'',
       m_calculatedCost = Some 75\<rparr>]"

definition refund_stats :: stats where
  "refund_stats = stats (getDashboardStats sample_host 1704844800000 (Some refund_week) None)"

definition growth_weeks :: "stored_meeting list" where
  "growth_weeks =
     [\<lparr>m_date = ''2024-01-02'', m_durationMinutes = Some 60, m_meetingType = Some ''planning'',
       m_calculatedCost = Some 100\<rparr>,
      \<lparr>m_date = ''2024-01-09'', m_durationMinutes = Some 30, m_meetingType = Some ''standup'',
       m_calculatedCost = Some 50\<rparr>,
      \<lparr>m_date = ''2024-01-10'', m_durationMinutes = Some 60, m_meetingType = None,
       m_calculatedCost = Some 100\<rparr>]"

definition growth_stats :: stats where
  "growth_stats = stats (getDashboardStats sample_host 1704844800000 (Some growth_weeks) None)"

text \<open>The meetings that get a bucket: those whose type is not an inherited name.\<close>

definition bucketed :: "stored_meeting \<Rightarrow> bool" where
  "bucketed m = (type_of_meeting m \<notin> set Object_prototype_keys)"

text \<open>
  A store, read on 2024-01-10, with one meeting of type \<open>constructor\<close> that costs 100
  and one standup that costs 50.
\<close>

definition constructor_store :: "stored_meeting list" where
  "constructor_store =
     [\<lparr>m_date = ''2024-01-02'', m_durationMinutes = Some 60,
       m_meetingType = Some ''constructor'', m_calculatedCost = Some 100\<rparr>,
      \<lparr>m_date = ''2024-01-09'', m_durationMinutes = Some 30,
       m_meetingType = Some ''standup'', m_calculatedCost = Some 50\<rparr>]"

definition constructor_stats :: stats where
  "constructor_stats =
     stats (getDashboardStats sample_host 1704844800000 (Some constructor_store) None)"

text \<open>A host that parses the serialized list \<open>["engineer"]\<close>.\<close>

definition json_engineer :: string where
  "json_engineer = [CHR ''['', CHR 0x22] @ ''engineer'' @ [CHR 0x22, CHR '']'']"

definition json_host :: host where
  "json_host =
     sample_host \<lparr> JSON_parse := (\<lambda>s. if s = json_engineer then Some [''engineer''] else None) \<rparr>"

text \<open>
  The Pearson formula on the finite readings of the snapshots: the numerator
  \<open>n * sum(xy) - sum(x) * sum(y)\<close>, and the product of the two spreads
  \<open>n * sum(xx) - sum(x)^2\<close>, whose square root is the denominator.
\<close>

definition hours_of :: "sprint_snapshot \<Rightarrow> real" where
  "hours_of s = val0 (totalMeetingHours s)"

definition points_of :: "sprint_snapshot \<Rightarrow> real" where
  "points_of s = val0 (completedPoints s)"

definition pearson_numerator :: "sprint_snapshot list \<Rightarrow> real" where
  "pearson_numerator ss =
     real (length ss) * (\<Sum>s\<leftarrow>ss. hours_of s * points_of s)
       - (\<Sum>s\<leftarrow>ss. hours_of s) * (\<Sum>s\<leftarrow>ss. points_of s)"

definition spread :: "(sprint_snapshot \<Rightarrow> real) \<Rightarrow> sprint_snapshot list \<Rightarrow> real" where
  "spread f ss = real (length ss) * (\<Sum>s\<leftarrow>ss. f s * f s) - (\<Sum>s\<leftarrow>ss. f s) * (\<Sum>s\<leftarrow>ss. f s)"

definition pearson_denominator :: "sprint_snapshot list \<Rightarrow> real" where
  "pearson_denominator ss = spread hours_of ss * spread points_of ss"

text \<open>Six sprints with 0.3 meeting hours each and 1 to 6 points.\<close>

definition flat_hours :: "sprint_snapshot list" where
  "flat_hours =
     [\<lparr>totalMeetingHours = Some 0.3, completedPoints = Some 1\<rparr>,
      \<lparr>totalMeetingHours = Some 0.3, completedPoints = Some 2\<rparr>,
      \<lparr>totalMeetingHours = Some 0.3, completedPoints = Some 3\<rparr>,
      \<lparr>totalMeetingHours = Some 0.3, completedPoints = Some 4\<rparr>,
      \<lparr>totalMeetingHours = Some 0.3, completedPoints = Some 5\<rparr>,
      \<lparr>totalMeetingHours = Some 0.3, completedPoints = Some 6\<rparr>]"

section \<open>Properties of the cost calculator\<close>

lemma totalCost_calculateMeetingCost:
  "totalCost (calculateMeetingCost h m roleRates) =
     fst (accrue (durationMinutes m) (parse_roles h (attendeeRoles m)) (attendeeCount m) roleRates)"
  by (simp add: calculateMeetingCost_def Let_def)

lemma breakdown_calculateMeetingCost:
  "breakdown (calculateMeetingCost h m roleRates) =
     snd (accrue (durationMinutes m) (parse_roles h (attendeeRoles m)) (attendeeCount m) roleRates)"
  by (simp add: calculateMeetingCost_def Let_def)

lemma costPerMinute_calculateMeetingCost:
  "costPerMinute (calculateMeetingCost h m roleRates) =
     (if 0 < durationMinutes m
      then jdiv (totalCost (calculateMeetingCost h m roleRates)) (Fin (durationMinutes m))
      else Fin 0)"
  by (simp add: calculateMeetingCost_def Let_def)

lemma costPerHour_calculateMeetingCost:
  "costPerHour (calculateMeetingCost h m roleRates) =
     jdiv (totalCost (calculateMeetingCost h m roleRates))
          (if durationMinutes m = 0 then Fin 1 else Fin (durationMinutes m / 60))"
  by (simp add: calculateMeetingCost_def Let_def jor_def truthy_def)

lemma fst_accrue_roles:
  "roles \<noteq> [] \<Longrightarrow> fst (accrue d roles count rr) = fst (foldl (role_step d rr) (Fin 0, []) roles)"
  by (simp add: accrue_def)

lemma snd_accrue_roles:
  "roles \<noteq> [] \<Longrightarrow> snd (accrue d roles count rr) = snd (foldl (role_step d rr) (Fin 0, []) roles)"
  by (simp add: accrue_def)

lemma fst_foldl_role_step:
  "fst (foldl (role_step d rr) (Fin a, ls) roles) =
     Fin (a + (\<Sum>rid\<leftarrow>roles. d / 60 * rate_of rr rid))"
proof (induction roles arbitrary: a ls)
  case Nil
  show ?case by simp
next
  case (Cons rid roles)
  show ?case
  proof (cases "find_rate rr rid")
    case None
    then show ?thesis using Cons.IH [of a ls]
      by (simp add: role_step_def rate_of_def)
  next
    case (Some rate)
    then show ?thesis
      using Cons.IH [of "a + d / 60 * hourlyRate rate"]
      by (simp add: role_step_def rate_of_def Let_def add.assoc)
  qed
qed

lemma find_rate_present:
  "rid \<in> roleId ` set rr \<Longrightarrow> \<exists>rate. find_rate rr rid = Some rate \<and> roleId rate = rid"
  unfolding find_rate_def by (induction rr) auto

text \<open>The breakdown line of a role the table has.\<close>

lemma snd_foldl_role_step:
  "set roles \<subseteq> roleId ` set rr \<Longrightarrow>
     snd (foldl (role_step d rr) (t, ls) roles) =
       ls @ map (\<lambda>rid. RoleLine (roleName (the (find_rate rr rid))) rid (Fin (rate_of rr rid))
                         (Fin (d / 60)) (Fin (d / 60 * rate_of rr rid))) roles"
proof (induction roles arbitrary: t ls)
  case Nil
  show ?case by simp
next
  case (Cons rid roles)
  from Cons.prems obtain rate where r: "find_rate rr rid = Some rate" "roleId rate = rid"
    using find_rate_present [of rid rr] by auto
  from Cons.prems have "set roles \<subseteq> roleId ` set rr" by simp
  from Cons.IH [OF this] r show ?case
    by (simp add: role_step_def Let_def rate_of_def)
qed

lemma sum_list_count:
  fixes f :: "'a \<Rightarrow> real"
  shows "sum_list (map f xs) = (\<Sum>x\<in>set xs. real (count_list xs x) * f x)"
proof (induction xs)
  case Nil
  show ?case by simp
next
  case (Cons a xs)
  have pointwise: "real (count_list (a # xs) x) * f x
      = real (count_list xs x) * f x + (if x = a then f x else 0)" for x
    by (simp add: algebra_simps)
  have split: "(\<Sum>x\<in>set (a # xs). real (count_list (a # xs) x) * f x)
      = (\<Sum>x\<in>set (a # xs). real (count_list xs x) * f x)
        + (\<Sum>x\<in>set (a # xs). (if x = a then f x else 0))"
    unfolding pointwise by (rule sum.distrib)
  have one: "(\<Sum>x\<in>set (a # xs). (if x = a then f x else 0)) = f a"
    by (simp add: sum.delta')
  have rest: "(\<Sum>x\<in>set (a # xs). real (count_list xs x) * f x)
      = (\<Sum>x\<in>set xs. real (count_list xs x) * f x)"
    by (rule sum.mono_neutral_right) (auto simp: count_list_0_iff)
  show ?case using Cons.IH split one rest by simp
qed

lemma foldl_rate_sum:
  "foldl (\<lambda>sum r. jadd sum (Fin (hourlyRate r))) (Fin a) rr = Fin (a + (\<Sum>r\<leftarrow>rr. hourlyRate r))"
  by (induction rr arbitrary: a) (simp_all add: add.assoc)

lemma average_rate_nonempty:
  "rr \<noteq> [] \<Longrightarrow> average_rate rr = Fin ((\<Sum>r\<leftarrow>rr. hourlyRate r) / real (length rr))"
  by (simp add: average_rate_def foldl_rate_sum)

lemma average_rate_empty: "average_rate [] = NaN"
  by (simp add: average_rate_def)

subsection \<open>The empty rate table\<close>

text \<open>
  C1: a meeting of 30 minutes with no roles and four attendees, on an empty rate table.
  The average rate is \<open>0 / 0\<close>, the total cost of \<open>calculateMeetingCost\<close> is \<open>NaN\<close>,
  and so is the cost \<open>addMeeting\<close> computes from the same payload when the stored rate
  table is the empty array: neither is \<open>0\<close>.
\<close>

theorem C1_empty_rate_table_gives_NaN:
  "totalCost (calculateMeetingCost h scenarioB []) = NaN
   \<and> getRoleRates (Some []) = []
   \<and> addMeeting_calculatedCost h (getRoleRates (Some []))
        \<lparr>p_durationMinutes = Some 30, p_attendeeCount = Some 4, p_attendeeRoles = None\<rparr> = NaN"
  by (simp add: totalCost_calculateMeetingCost accrue_def parse_roles_def truthy_def
      average_rate_empty addMeeting_calculatedCost_def parseInt_or_def jor_def scenarioB_def
      getRoleRates_def)

text \<open>
  C10: when \<open>attendeeRoles\<close> parses to the empty list and \<open>attendeeCount\<close> is absent or
  zero, the average-rate fallback is not applied, whatever the rate table: the total cost
  is \<open>0\<close> and the breakdown is empty.
\<close>

theorem C10_no_fallback_without_count:
  assumes "parse_roles h (attendeeRoles m) = []"
    and "attendeeCount m = None \<or> attendeeCount m = Some 0"
  shows "totalCost (calculateMeetingCost h m roleRates) = Fin 0
       \<and> breakdown (calculateMeetingCost h m roleRates) = []"
  using assms
  by (auto simp: totalCost_calculateMeetingCost breakdown_calculateMeetingCost accrue_def
      truthy_def)

theorem C10_witness:
  "parse_roles sample_host (attendeeRoles (scenarioB\<lparr>attendeeCount := Some 0\<rparr>)) = []
   \<and> totalCost (calculateMeetingCost sample_host (scenarioB\<lparr>attendeeCount := Some 0\<rparr>)
        scenario_rates) = Fin 0
   \<and> breakdown (calculateMeetingCost sample_host (scenarioB\<lparr>attendeeCount := Some 0\<rparr>)
        scenario_rates) = []"
  using C10_no_fallback_without_count
    [of sample_host "scenarioB\<lparr>attendeeCount := Some 0\<rparr>" scenario_rates]
  by (simp add: parse_roles_def scenarioB_def)

lemma find_rate_scenario [simp]:
  "find_rate scenario_rates ''engineer'' = Some \<lparr>roleId = ''engineer'', roleName = ''Engineer'', hourlyRate = 75\<rparr>"
  "find_rate scenario_rates ''pm'' = Some \<lparr>roleId = ''pm'', roleName = ''Product Manager'', hourlyRate = 90\<rparr>"
  by (simp_all add: find_rate_def scenario_rates_def)

subsection \<open>Roles listed more than once\<close>

text \<open>
  C2, as stated, fails: with the rate table \<open>{engineer: 75, pm: 90}\<close>, an hour-long
  meeting whose role list is \<open>["engineer", "engineer"]\<close> costs 150, and the same meeting
  with the duplicate removed costs 75.
\<close>

theorem C2_counterexample:
  "parse_roles sample_host (attendeeRoles twice_engineer) = [''engineer'', ''engineer'']
   \<and> remdups [''engineer'', ''engineer''] = [''engineer'']
   \<and> totalCost (calculateMeetingCost sample_host twice_engineer scenario_rates) = Fin 150
   \<and> totalCost (calculateMeetingCost sample_host
         (twice_engineer\<lparr>attendeeRoles := RolesArray (remdups [''engineer'', ''engineer''])\<rparr>)
         scenario_rates) = Fin 75"
  by (simp add: totalCost_calculateMeetingCost accrue_def parse_roles_def twice_engineer_def
      role_step_def Let_def)

text \<open>
  C2, amended: for a non-empty role list the total cost counts every occurrence of a role
  id. It is the sum, over the distinct ids of the list, of the number of occurrences of the
  id times \<open>durationMinutes / 60\<close> times the rate of the id (nothing for an id the table
  does not have).
\<close>

theorem C2_cost_counts_every_occurrence:
  assumes "parse_roles h (attendeeRoles m) = roles" and "roles \<noteq> []"
  shows "totalCost (calculateMeetingCost h m roleRates) =
           Fin (\<Sum>rid\<in>set roles.
                  real (count_list roles rid) * (durationMinutes m / 60 * rate_of roleRates rid))"
  using assms
  by (simp add: totalCost_calculateMeetingCost fst_accrue_roles fst_foldl_role_step
      sum_list_count)

text \<open>The amended C2 at the meeting that lists \<open>engineer\<close> twice: \<open>2 * 75\<close>.\<close>

theorem C2_witness:
  "parse_roles sample_host (attendeeRoles twice_engineer) = [''engineer'', ''engineer'']
   \<and> totalCost (calculateMeetingCost sample_host twice_engineer scenario_rates) =
       Fin (real (count_list [''engineer'', ''engineer''] ''engineer'') * (60 / 60 * 75))"
  using C2_cost_counts_every_occurrence
    [of sample_host twice_engineer "[''engineer'', ''engineer'']" scenario_rates]
  by (simp add: parse_roles_def twice_engineer_def rate_of_def)

subsection \<open>Cost additivity\<close>

text \<open>
  C3, as stated, fails on the empty role list, which is a list of distinct ids all in the
  table: scenario B (30 minutes, no roles, four attendees) takes the average-rate branch,
  its total is 165 and not the empty sum, and its breakdown has one line and not none.
\<close>

theorem C3_counterexample:
  "distinct (parse_roles sample_host (attendeeRoles scenarioB))
   \<and> set (parse_roles sample_host (attendeeRoles scenarioB)) \<subseteq> roleId ` set scenario_rates
   \<and> totalCost (calculateMeetingCost sample_host scenarioB scenario_rates) = Fin 165
   \<and> (\<Sum>rid\<leftarrow>parse_roles sample_host (attendeeRoles scenarioB).
         durationMinutes scenarioB / 60 * rate_of scenario_rates rid) = 0
   \<and> length (breakdown (calculateMeetingCost sample_host scenarioB scenario_rates)) = 1
   \<and> length (parse_roles sample_host (attendeeRoles scenarioB)) = 0"
  by (simp add: totalCost_calculateMeetingCost breakdown_calculateMeetingCost accrue_def
      parse_roles_def scenarioB_def truthy_def average_rate_nonempty scenario_rates_def
      Let_def)

text \<open>
  C3, amended: for a non-empty list of distinct role ids that are all in the rate table,
  the total cost is the sum over the roles of \<open>durationMinutes / 60\<close> times the hourly
  rate, and the breakdown has one line per role, in the order of the list, with that
  role's rate, hours and cost.
\<close>

theorem C3_cost_additivity:
  assumes "parse_roles h (attendeeRoles m) = roles" and "roles \<noteq> []"
    and "distinct roles" and "set roles \<subseteq> roleId ` set roleRates"
  shows "totalCost (calculateMeetingCost h m roleRates) =
           Fin (\<Sum>rid\<leftarrow>roles. durationMinutes m / 60 * rate_of roleRates rid)
       \<and> breakdown (calculateMeetingCost h m roleRates) =
           map (\<lambda>rid. RoleLine (roleName (the (find_rate roleRates rid))) rid
                         (Fin (rate_of roleRates rid)) (Fin (durationMinutes m / 60))
                         (Fin (durationMinutes m / 60 * rate_of roleRates rid))) roles"
  using assms
  by (simp add: totalCost_calculateMeetingCost breakdown_calculateMeetingCost fst_accrue_roles
      snd_accrue_roles fst_foldl_role_step snd_foldl_role_step)

text \<open>
  The amended C3 at scenario A: rate table \<open>{engineer: 75, pm: 90}\<close>, 60 minutes, roles
  \<open>["engineer", "pm"]\<close>; the total cost is 165.
\<close>

theorem C3_scenario_A:
  "parse_roles sample_host (attendeeRoles scenarioA) = [''engineer'', ''pm'']
   \<and> distinct [''engineer'', ''pm'']
   \<and> set [''engineer'', ''pm''] \<subseteq> roleId ` set scenario_rates
   \<and> totalCost (calculateMeetingCost sample_host scenarioA scenario_rates) = Fin 165
   \<and> breakdown (calculateMeetingCost sample_host scenarioA scenario_rates) =
       [RoleLine ''Engineer'' ''engineer'' (Fin 75) (Fin 1) (Fin 75),
        RoleLine ''Product Manager'' ''pm'' (Fin 90) (Fin 1) (Fin 90)]"
proof -
  have p: "parse_roles sample_host (attendeeRoles scenarioA) = [''engineer'', ''pm'']"
    by (simp add: parse_roles_def scenarioA_def)
  have s: "set [''engineer'', ''pm''] \<subseteq> roleId ` set scenario_rates"
    by (simp add: scenario_rates_def)
  have d: "durationMinutes scenarioA = 60" by (simp add: scenarioA_def)
  show ?thesis
    using C3_cost_additivity [OF p _ _ s] p s d by (simp add: rate_of_def)
qed

subsection \<open>Zero duration\<close>

text \<open>
  C9: a meeting of zero minutes with no roles and four attendees, on an empty rate table.
  The total cost is \<open>0 * NaN * 4 = NaN\<close> and the cost per hour is \<open>NaN / 1 = NaN\<close>; only
  the cost per minute, which tests the duration, is \<open>0\<close>.
\<close>

theorem C9_zero_duration_on_empty_table:
  "totalCost (calculateMeetingCost h (scenarioB\<lparr>durationMinutes := 0\<rparr>) []) = NaN
   \<and> costPerMinute (calculateMeetingCost h (scenarioB\<lparr>durationMinutes := 0\<rparr>) []) = Fin 0
   \<and> costPerHour (calculateMeetingCost h (scenarioB\<lparr>durationMinutes := 0\<rparr>) []) = NaN"
  by (simp add: totalCost_calculateMeetingCost costPerMinute_calculateMeetingCost
      costPerHour_calculateMeetingCost accrue_def parse_roles_def truthy_def
      average_rate_empty scenarioB_def)

text \<open>On a rate table that is not empty the three figures of a zero-minute meeting are 0.\<close>

lemma zero_duration_on_nonempty_table:
  assumes "durationMinutes m = 0" and "roleRates \<noteq> []"
  shows "totalCost (calculateMeetingCost h m roleRates) = Fin 0
       \<and> costPerMinute (calculateMeetingCost h m roleRates) = Fin 0
       \<and> costPerHour (calculateMeetingCost h m roleRates) = Fin 0"
proof -
  have "fst (accrue 0 roles count roleRates) = Fin 0" for roles count
    using assms(2)
    by (cases "roles = []")
       (auto simp: accrue_def average_rate_nonempty Let_def fst_foldl_role_step
          split: option.splits)
  then have "totalCost (calculateMeetingCost h m roleRates) = Fin 0"
    using assms(1) by (simp add: totalCost_calculateMeetingCost)
  then show ?thesis
    using assms(1)
    by (simp add: costPerMinute_calculateMeetingCost costPerHour_calculateMeetingCost)
qed

section \<open>Properties of the optimization advisor\<close>

lemma suggestions_generateOptimizations:
  "suggestions (generateOptimizations h s) = sort_key (\<lambda>a. priorityOrder (priority a)) (pushed h s)"
  by (simp add: generateOptimizations_def Let_def)

lemma set_suggestions:
  "set (suggestions (generateOptimizations h s)) = set (pushed h s)"
  by (simp add: suggestions_generateOptimizations)

lemma category_check_trend: "a \<in> set (check_trend h s) \<Longrightarrow> category a = ''cost-trend''"
  by (auto simp: check_trend_def split: if_splits)

lemma category_check_adhoc: "a \<in> set (check_adhoc h s) \<Longrightarrow> category a = ''ad-hoc''"
  by (auto simp: check_adhoc_def Let_def split: if_splits option.splits)

lemma category_check_load: "a \<in> set (check_load h s) \<Longrightarrow> category a = ''time-spent''"
  by (auto simp: check_load_def Let_def split: if_splits)

lemma category_check_total: "a \<in> set (check_total s) \<Longrightarrow> category a = ''general''"
  by (auto simp: check_total_def split: if_splits)

lemma category_check_count: "a \<in> set (check_count s) \<Longrightarrow> category a = ''attendance''"
  by (auto simp: check_count_def split: if_splits)

lemma standup_in_pushed:
  "(a \<in> set (pushed h s) \<and> category a = ''standup'') =
   (a \<in> set (check_standup h s))"
proof
  assume "a \<in> set (pushed h s) \<and> category a = ''standup''"
  then show "a \<in> set (check_standup h s)"
    unfolding pushed_def
    using category_check_trend [of a h s] category_check_adhoc [of a h s]
      category_check_load [of a h s] category_check_total [of a s]
      category_check_count [of a s]
    by auto
next
  assume "a \<in> set (check_standup h s)"
  then show "a \<in> set (pushed h s) \<and> category a = ''standup''"
    by (auto simp: pushed_def check_standup_def Let_def split: if_splits option.splits)
qed

lemma in_check_standup:
  assumes "a \<in> set (check_standup h s)"
  shows "\<exists>sd. map_of (st_costByType s) ''standup'' = Some sd
        \<and> jgt (jmul (jdiv (tb_hours sd) (tb_count sd)) (Fin 60)) (Fin 15)
        \<and> priority a = Medium \<and> category a = ''standup''
        \<and> potentialSavings a = jmul (tb_cost sd) (Fin 0.3)"
proof (cases "map_of (st_costByType s) ''standup''")
  case None
  with assms show ?thesis by (simp add: check_standup_def)
next
  case (Some sd)
  with assms show ?thesis
    by (cases "jgt (jmul (jdiv (tb_hours sd) (tb_count sd)) (Fin 60)) (Fin 15)")
       (simp_all add: check_standup_def Let_def)
qed

lemma check_standup_nonempty:
  "map_of (st_costByType s) ''standup'' = Some sd \<Longrightarrow>
   jgt (jmul (jdiv (tb_hours sd) (tb_count sd)) (Fin 60)) (Fin 15) \<Longrightarrow>
   \<exists>a. a \<in> set (check_standup h s)"
  by (auto simp: check_standup_def Let_def)

text \<open>
  C7: the output has a suggestion of category \<open>standup\<close> exactly when the statistics have
  a \<open>standup\<close> bucket whose average duration \<open>(hours / count) * 60\<close> is greater than 15;
  such a suggestion has priority medium and savings of 0.3 times the cost of the bucket.
  Scenario C, whose average is exactly 15 minutes, has no standup suggestion.
\<close>

theorem C7_standup_suggestion:
  "((\<exists>a \<in> set (suggestions (generateOptimizations h s)). category a = ''standup'') =
      (\<exists>sd. map_of (st_costByType s) ''standup'' = Some sd
           \<and> jgt (jmul (jdiv (tb_hours sd) (tb_count sd)) (Fin 60)) (Fin 15)))
   \<and> (\<forall>a \<in> set (suggestions (generateOptimizations h s)).
         category a = ''standup'' \<longrightarrow>
           priority a = Medium
           \<and> (\<exists>sd. map_of (st_costByType s) ''standup'' = Some sd
                  \<and> potentialSavings a = jmul (tb_cost sd) (Fin 0.3)))
   \<and> \<not> (\<exists>a \<in> set (suggestions (generateOptimizations h scenarioC)). category a = ''standup'')"
proof (intro conjI)
  show "(\<exists>a \<in> set (suggestions (generateOptimizations h s)). category a = ''standup'') =
      (\<exists>sd. map_of (st_costByType s) ''standup'' = Some sd
           \<and> jgt (jmul (jdiv (tb_hours sd) (tb_count sd)) (Fin 60)) (Fin 15))"
    unfolding set_suggestions
    using standup_in_pushed [of _ h s] in_check_standup [of _ h s]
      check_standup_nonempty [of s _ h]
    by blast
  show "\<forall>a \<in> set (suggestions (generateOptimizations h s)).
         category a = ''standup'' \<longrightarrow>
           priority a = Medium
           \<and> (\<exists>sd. map_of (st_costByType s) ''standup'' = Some sd
                  \<and> potentialSavings a = jmul (tb_cost sd) (Fin 0.3))"
    unfolding set_suggestions
    using standup_in_pushed [of _ h s] in_check_standup [of _ h s]
    by blast
  have "check_standup h scenarioC = []"
    by (simp add: check_standup_def scenarioC_def)
  then show "\<not> (\<exists>a \<in> set (suggestions (generateOptimizations h scenarioC)). category a = ''standup'')"
    unfolding set_suggestions using standup_in_pushed [of _ h scenarioC] by auto
qed

text \<open>
  C7 at a month of ten standups of 18 minutes on average that cost 100: one suggestion,
  standup, medium, with savings of 30; and at scenario C: none.
\<close>

theorem C7_witness:
  "map priority (suggestions (generateOptimizations sample_host long_standups)) = [Medium]
   \<and> map category (suggestions (generateOptimizations sample_host long_standups)) = [''standup'']
   \<and> map potentialSavings (suggestions (generateOptimizations sample_host long_standups)) = [Fin 30]
   \<and> map_of (st_costByType long_standups) ''standup''
        = Some \<lparr>tb_cost = Fin 100, tb_count = Fin 10, tb_hours = Fin 3\<rparr>
   \<and> jgt (jmul (jdiv (Fin 3) (Fin 10)) (Fin 60)) (Fin 15)
   \<and> suggestions (generateOptimizations sample_host scenarioC) = []"
  using C7_standup_suggestion [of sample_host long_standups]
  by (simp add: suggestions_generateOptimizations pushed_def check_trend_def check_standup_def
      check_adhoc_def check_load_def check_total_def check_count_def long_standups_def
      scenarioC_def Let_def)













text \<open>When all six checks fire: the three high ones, then the two medium ones, then the low one.\<close>

lemma busy_month_suggestions:
  "map category (suggestions (generateOptimizations sample_host busy_month)) =
     [''cost-trend'', ''ad-hoc'', ''time-spent'', ''standup'', ''general'', ''attendance'']
   \<and> map priority (suggestions (generateOptimizations sample_host busy_month)) =
     [High, High, High, Medium, Medium, Low]"
  by (simp add: suggestions_generateOptimizations pushed_def check_trend_def check_standup_def
      check_adhoc_def check_load_def check_total_def check_count_def busy_month_def Let_def)

section \<open>Properties of the dashboard statistics\<close>

lemma fin_val_Fin: "fin_val (Fin x) = x"
  by (simp add: fin_val_def)

lemma num_or0_val0: "num_or0 v = Fin (val0 v)"
  by (cases v) (auto simp: num_or0_def val0_def jor_def truthy_def)

lemma is_fin_Fin: "is_fin a \<Longrightarrow> a = Fin (fin_val a)"
  by (cases a) (simp_all add: is_fin_def fin_val_def)

lemma foldl_jadd_Fin:
  "foldl (\<lambda>sum m. jadd sum (Fin (f m))) (Fin a) ms = Fin (a + (\<Sum>m\<leftarrow>ms. f m))"
  by (induction ms arbitrary: a) (simp_all add: add.assoc)

lemma sum_cost_Fin: "sum_cost ms = Fin (\<Sum>m\<leftarrow>ms. val0 (m_calculatedCost m))"
  by (simp add: sum_cost_def num_or0_val0 foldl_jadd_Fin)

lemma sum_minutes_Fin: "sum_minutes ms = Fin (\<Sum>m\<leftarrow>ms. val0 (m_durationMinutes m))"
  by (simp add: sum_minutes_def num_or0_val0 foldl_jadd_Fin)

lemma jsum_Fin: "list_all is_fin xs \<Longrightarrow> foldl jadd (Fin a) xs = Fin (a + (\<Sum>x\<leftarrow>xs. fin_val x))"
proof (induction xs arbitrary: a)
  case Nil
  show ?case by simp
next
  case (Cons x xs)
  then obtain r where x: "x = Fin r" by (cases x) (simp_all add: is_fin_def)
  from Cons show ?case by (simp add: x fin_val_Fin add.assoc)
qed

lemma sum_obj_set:
  fixes f :: "'v \<Rightarrow> real"
  shows "(\<Sum>kv\<leftarrow>obj_set k v kvs. f (snd kv)) =
           (\<Sum>kv\<leftarrow>kvs. f (snd kv)) - (case map_of kvs k of None \<Rightarrow> 0 | Some b \<Rightarrow> f b) + f v"
  by (induction kvs) auto

lemma list_all_obj_set:
  "list_all (\<lambda>kv. P (snd kv)) kvs \<Longrightarrow> P v \<Longrightarrow> list_all (\<lambda>kv. P (snd kv)) (obj_set k v kvs)"
  by (induction kvs) auto

lemma map_of_list_all:
  "list_all (\<lambda>kv. P (snd kv)) kvs \<Longrightarrow> map_of kvs k = Some b \<Longrightarrow> P b"
  by (induction kvs) (auto split: if_splits)

text \<open>The bucket a meeting is added to is the one of its type, or a fresh one.\<close>

lemma add_meeting_fin: "fin_bucket b \<Longrightarrow> fin_bucket (add_meeting b m)"
  unfolding fin_bucket_def add_meeting_def
  by (cases "tb_cost b"; cases "tb_count b"; cases "tb_hours b")
     (simp_all add: is_fin_def num_or0_val0)

lemma add_meeting_cost:
  "fin_bucket b \<Longrightarrow>
     fin_val (tb_cost (add_meeting b m)) = fin_val (tb_cost b) + val0 (m_calculatedCost m)"
  unfolding fin_bucket_def add_meeting_def
  by (cases "tb_cost b") (simp_all add: is_fin_def num_or0_val0 fin_val_Fin)

lemma add_meeting_hours:
  "fin_bucket b \<Longrightarrow>
     fin_val (tb_hours (add_meeting b m)) = fin_val (tb_hours b) + val0 (m_durationMinutes m) / 60"
  unfolding fin_bucket_def add_meeting_def
  by (cases "tb_hours b") (simp_all add: is_fin_def num_or0_val0 fin_val_Fin)

lemma zero_bucket_fin: "fin_bucket \<lparr>tb_cost = Fin 0, tb_count = Fin 0, tb_hours = Fin 0\<rparr>"
  by (simp add: fin_bucket_def is_fin_def)

lemma type_step_fin:
  assumes "list_all (\<lambda>kv. fin_bucket (snd kv)) cbt"
  shows "list_all (\<lambda>kv. fin_bucket (snd kv)) (type_step cbt m)"
proof (cases "map_of cbt (type_of_meeting m)")
  case None
  show ?thesis
    using None assms list_all_obj_set [OF assms add_meeting_fin [OF zero_bucket_fin]]
    by (simp add: type_step_def Let_def)
next
  case (Some b)
  with assms have "fin_bucket b" by (rule map_of_list_all)
  then show ?thesis
    using Some list_all_obj_set [OF assms add_meeting_fin]
    by (simp add: type_step_def Let_def)
qed

text \<open>No inherited name ever becomes an own key.\<close>

lemma keys_obj_set:
  "list_all (\<lambda>kv. P (fst kv)) kvs \<Longrightarrow> P k \<Longrightarrow> list_all (\<lambda>kv. P (fst kv)) (obj_set k v kvs)"
  by (induction kvs) auto

lemma map_of_absent:
  "list_all (\<lambda>kv. P (fst kv)) kvs \<Longrightarrow> \<not> P k \<Longrightarrow> map_of kvs k = None"
  by (induction kvs) auto

lemma type_step_keys:
  assumes "list_all (\<lambda>kv. fst kv \<notin> set Object_prototype_keys) cbt"
  shows "list_all (\<lambda>kv. fst kv \<notin> set Object_prototype_keys) (type_step cbt m)"
proof (cases "type_of_meeting m \<in> set Object_prototype_keys")
  case True
  with map_of_absent [OF assms, of "type_of_meeting m"] assms show ?thesis
    by (simp add: type_step_def Let_def)
next
  case False
  with keys_obj_set [OF assms, of "type_of_meeting m"] show ?thesis
    by (simp add: type_step_def Let_def split: option.splits)
qed

lemma type_step_sum:
  fixes f :: "type_bucket \<Rightarrow> real" and g :: "stored_meeting \<Rightarrow> real"
  assumes fin: "list_all (\<lambda>kv. fin_bucket (snd kv)) cbt"
    and keys: "list_all (\<lambda>kv. fst kv \<notin> set Object_prototype_keys) cbt"
    and step: "\<And>b. fin_bucket b \<Longrightarrow> f (add_meeting b m) = f b + g m"
    and zero: "f \<lparr>tb_cost = Fin 0, tb_count = Fin 0, tb_hours = Fin 0\<rparr> = 0"
  shows "(\<Sum>kv\<leftarrow>type_step cbt m. f (snd kv)) =
           (\<Sum>kv\<leftarrow>cbt. f (snd kv)) + (if bucketed m then g m else 0)"
proof (cases "map_of cbt (type_of_meeting m)")
  case None
  show ?thesis
  proof (cases "bucketed m")
    case True
    with None show ?thesis
      using step [OF zero_bucket_fin] zero
      by (simp add: type_step_def Let_def bucketed_def sum_obj_set [where f = f])
  next
    case False
    with None show ?thesis by (simp add: type_step_def Let_def bucketed_def)
  qed
next
  case (Some b)
  with fin have b: "fin_bucket b" by (rule map_of_list_all)
  have "bucketed m"
    using Some map_of_absent [OF keys, of "type_of_meeting m"] by (auto simp: bucketed_def)
  with Some show ?thesis
    using step [OF b] by (simp add: type_step_def Let_def sum_obj_set [where f = f])
qed

lemma foldl_type_step:
  assumes "list_all (\<lambda>kv. fin_bucket (snd kv)) cbt"
    and "list_all (\<lambda>kv. fst kv \<notin> set Object_prototype_keys) cbt"
  shows "list_all (\<lambda>kv. fin_bucket (snd kv)) (foldl type_step cbt ms)
       \<and> (\<Sum>kv\<leftarrow>foldl type_step cbt ms. fin_val (tb_cost (snd kv))) =
           (\<Sum>kv\<leftarrow>cbt. fin_val (tb_cost (snd kv)))
             + (\<Sum>m\<leftarrow>filter bucketed ms. val0 (m_calculatedCost m))
       \<and> (\<Sum>kv\<leftarrow>foldl type_step cbt ms. fin_val (tb_hours (snd kv))) =
           (\<Sum>kv\<leftarrow>cbt. fin_val (tb_hours (snd kv)))
             + (\<Sum>m\<leftarrow>filter bucketed ms. val0 (m_durationMinutes m) / 60)"
  using assms
proof (induction ms arbitrary: cbt)
  case Nil
  then show ?case by simp
next
  case (Cons m ms)
  have c: "(\<Sum>kv\<leftarrow>type_step cbt m. fin_val (tb_cost (snd kv))) =
             (\<Sum>kv\<leftarrow>cbt. fin_val (tb_cost (snd kv)))
               + (if bucketed m then val0 (m_calculatedCost m) else 0)"
    by (rule type_step_sum [OF Cons.prems]) (simp_all add: add_meeting_cost fin_val_Fin)
  have hh: "(\<Sum>kv\<leftarrow>type_step cbt m. fin_val (tb_hours (snd kv))) =
             (\<Sum>kv\<leftarrow>cbt. fin_val (tb_hours (snd kv)))
               + (if bucketed m then val0 (m_durationMinutes m) / 60 else 0)"
    by (rule type_step_sum [OF Cons.prems]) (simp_all add: add_meeting_hours fin_val_Fin)
  from Cons.IH [OF type_step_fin [OF Cons.prems(1), of m] type_step_keys [OF Cons.prems(2), of m]]
  show ?case
    by (simp add: c hh add.assoc)
qed

lemma sum_list_div60:
  fixes f :: "'a \<Rightarrow> real"
  shows "(\<Sum>m\<leftarrow>ms. f m / 60) = (\<Sum>m\<leftarrow>ms. f m) / 60"
  by (induction ms) (simp_all add: add_divide_distrib)

text \<open>The buckets add up to the cost and the hours of the meetings that got a bucket.\<close>

lemma costByType_sums:
  "jsum (map (\<lambda>kv. tb_cost (snd kv)) (foldl type_step [] ms)) = sum_cost (filter bucketed ms)
   \<and> jsum (map (\<lambda>kv. tb_hours (snd kv)) (foldl type_step [] ms)) =
       jdiv (sum_minutes (filter bucketed ms)) (Fin 60)"
proof -
  have inv: "list_all (\<lambda>kv. fin_bucket (snd kv)) (foldl type_step [] ms)"
    and c: "(\<Sum>kv\<leftarrow>foldl type_step [] ms. fin_val (tb_cost (snd kv))) =
              (\<Sum>m\<leftarrow>filter bucketed ms. val0 (m_calculatedCost m))"
    and hh: "(\<Sum>kv\<leftarrow>foldl type_step [] ms. fin_val (tb_hours (snd kv))) =
              (\<Sum>m\<leftarrow>filter bucketed ms. val0 (m_durationMinutes m) / 60)"
    using foldl_type_step [of "[]" ms] by simp_all
  have fc: "list_all is_fin (map (\<lambda>kv. tb_cost (snd kv)) (foldl type_step [] ms))"
    using inv by (simp add: list_all_iff fin_bucket_def)
  have fh: "list_all is_fin (map (\<lambda>kv. tb_hours (snd kv)) (foldl type_step [] ms))"
    using inv by (simp add: list_all_iff fin_bucket_def)
  show ?thesis
    using jsum_Fin [OF fc, of 0] jsum_Fin [OF fh, of 0] c hh
    by (simp add: jsum_def sum_cost_Fin sum_minutes_Fin sum_list_div60 comp_def)
qed

text \<open>Weekly grouping never throws, so the statistics are always the computed ones.\<close>

lemma week_never_throws: "period_key ''week'' d \<noteq> Inl e"
  by (simp add: period_key_def)

lemma group_loop_week: "\<exists>g. group_loop h ''week'' ms grouped = Inr g"
  by (induction ms arbitrary: grouped) (auto simp: period_key_def)

lemma trends_week:
  "\<exists>tr. calculateCostTrends h ms ''week'' = Inr tr
       \<and> list_all (\<lambda>b. is_fin (pb_totalCost b)) tr"
proof (cases "length ms = 0")
  case True
  then show ?thesis by (simp add: calculateCostTrends_def)
next
  case False
  obtain g where g: "group_loop h ''week'' ms [] = Inr g"
    using group_loop_week by blast
  have "list_all (\<lambda>b. is_fin (pb_totalCost b)) (sort_key pb_period (map bucket_of g))"
    by (auto simp: list_all_iff bucket_of_def sum_cost_Fin is_fin_def)
  with False g show ?thesis
    by (simp add: calculateCostTrends_def groupMeetingsByPeriod_def)
qed

lemma stats_getDashboardStats:
  "\<exists>tr. list_all (\<lambda>b. is_fin (pb_totalCost b)) tr
     \<and> getDashboardStats h now stored payload =
        (let dateRange = (case payload of None \<Rightarrow> ''last-month'' | Some r \<Rightarrow> r);
             filtered = filteredMeetings h now dateRange (case stored of None \<Rightarrow> [] | Some ms \<Rightarrow> ms)
         in \<lparr> success = True, error = None,
               stats = \<lparr> st_totalCost = sum_cost filtered,
                         st_totalHours = jdiv (sum_minutes filtered) (Fin 60),
                         st_meetingCount = length filtered,
                         st_costByType = foldl type_step [] filtered,
                         st_trends = tr,
                         st_trendPercentage = trend_percentage tr,
                         st_dateRange = dateRange \<rparr> \<rparr>)"
proof -
  obtain tr where "calculateCostTrends h (filteredMeetings h now
       (case payload of None \<Rightarrow> ''last-month'' | Some r \<Rightarrow> r)
       (case stored of None \<Rightarrow> [] | Some ms \<Rightarrow> ms)) ''week'' = Inr tr"
    and "list_all (\<lambda>b. is_fin (pb_totalCost b)) tr"
    using trends_week by blast
  then show ?thesis
    by (intro exI [of _ tr]) (simp add: getDashboardStats_def Let_def)
qed

text \<open>The two sample stores, evaluated.\<close>

lemma refund_stats_value:
  "refund_stats =
     \<lparr> st_totalCost = Fin 0, st_totalHours = Fin 0, st_meetingCount = 2,
       st_costByType = [(''planning'', \<lparr>tb_cost = Fin 0, tb_count = Fin 2, tb_hours = Fin 0\<rparr>)],
       st_trends =
         [\<lparr>pb_period = ''2024-W01'', pb_totalCost = Fin (- 75), pb_meetingCount = 1,
           pb_totalHours = Fin (- 1), pb_avgCostPerMeeting = Fin (- 75)\<rparr>,
          \<lparr>pb_period = ''2024-W02'', pb_totalCost = Fin 75, pb_meetingCount = 1,
           pb_totalHours = Fin 1, pb_avgCostPerMeeting = Fin 75\<rparr>],
       st_trendPercentage = Fin 0, st_dateRange = ''last-month'' \<rparr>"
  unfolding refund_stats_def by code_simp

lemma growth_stats_value:
  "growth_stats =
     \<lparr> st_totalCost = Fin 250, st_totalHours = Fin (5 / 2), st_meetingCount = 3,
       st_costByType =
         [(''planning'', \<lparr>tb_cost = Fin 100, tb_count = Fin 1, tb_hours = Fin 1\<rparr>),
          (''standup'', \<lparr>tb_cost = Fin 50, tb_count = Fin 1, tb_hours = Fin (1 / 2)\<rparr>),
          (''ad-hoc'', \<lparr>tb_cost = Fin 100, tb_count = Fin 1, tb_hours = Fin 1\<rparr>)],
       st_trends =
         [\<lparr>pb_period = ''2024-W01'', pb_totalCost = Fin 100, pb_meetingCount = 1,
           pb_totalHours = Fin 1, pb_avgCostPerMeeting = Fin 100\<rparr>,
          \<lparr>pb_period = ''2024-W02'', pb_totalCost = Fin 150, pb_meetingCount = 2,
           pb_totalHours = Fin (3 / 2), pb_avgCostPerMeeting = Fin 75\<rparr>],
       st_trendPercentage = Fin 50, st_dateRange = ''last-month'' \<rparr>"
  unfolding growth_stats_def by code_simp

text \<open>
  Where every stored meeting has a type that is not an inherited name, the total cost is
  the sum of the costs of the \<open>costByType\<close> buckets and the total hours are the sum of
  their hours, in exact arithmetic.
\<close>

lemma totals_match_without_inherited_types:
  assumes "list_all bucketed ms"
  shows "st_totalCost (stats (getDashboardStats h now (Some ms) payload)) =
     jsum (map (\<lambda>kv. tb_cost (snd kv))
            (st_costByType (stats (getDashboardStats h now (Some ms) payload))))
   \<and> st_totalHours (stats (getDashboardStats h now (Some ms) payload)) =
     jsum (map (\<lambda>kv. tb_hours (snd kv))
            (st_costByType (stats (getDashboardStats h now (Some ms) payload))))"
proof -
  let ?f = "filteredMeetings h now (case payload of None \<Rightarrow> ''last-month'' | Some r \<Rightarrow> r) ms"
  obtain tr where "getDashboardStats h now (Some ms) payload =
        \<lparr> success = True, error = None,
          stats = \<lparr> st_totalCost = sum_cost ?f,
                    st_totalHours = jdiv (sum_minutes ?f) (Fin 60),
                    st_meetingCount = length ?f,
                    st_costByType = foldl type_step [] ?f,
                    st_trends = tr,
                    st_trendPercentage = trend_percentage tr,
                    st_dateRange = (case payload of None \<Rightarrow> ''last-month'' | Some r \<Rightarrow> r) \<rparr> \<rparr>"
    using stats_getDashboardStats [of h now "Some ms" payload] by (auto simp: Let_def)
  moreover have "filter bucketed ?f = ?f"
    using assms by (intro filter_True) (auto simp: filteredMeetings_def list_all_iff)
  ultimately show ?thesis
    by (simp add: costByType_sums)
qed

text \<open>
  C4: on \<open>constructor_store\<close> the meeting of type \<open>constructor\<close> is counted in the
  totals and gets no bucket: the total cost is 150 and the costs of the buckets add up to
  50; the total hours are 1.5 and the hours of the buckets add up to 0.5.
\<close>

lemma constructor_stats_value:
  "constructor_stats =
     \<lparr> st_totalCost = Fin 150, st_totalHours = Fin (3 / 2), st_meetingCount = 2,
       st_costByType =
         [(''standup'', \<lparr>tb_cost = Fin 50, tb_count = Fin 1, tb_hours = Fin (1 / 2)\<rparr>)],
       st_trends =
         [\<lparr>pb_period = ''2024-W01'', pb_totalCost = Fin 100, pb_meetingCount = 1,
           pb_totalHours = Fin 1, pb_avgCostPerMeeting = Fin 100\<rparr>,
          \<lparr>pb_period = ''2024-W02'', pb_totalCost = Fin 50, pb_meetingCount = 1,
           pb_totalHours = Fin (1 / 2), pb_avgCostPerMeeting = Fin 50\<rparr>],
       st_trendPercentage = Fin (- 50), st_dateRange = ''last-month'' \<rparr>"
  unfolding constructor_stats_def by code_simp

theorem C4_inherited_type_gets_no_bucket:
  "st_totalCost constructor_stats = Fin 150
   \<and> jsum (map (\<lambda>kv. tb_cost (snd kv)) (st_costByType constructor_stats)) = Fin 50
   \<and> st_totalHours constructor_stats = Fin (3 / 2)
   \<and> jsum (map (\<lambda>kv. tb_hours (snd kv)) (st_costByType constructor_stats)) = Fin (1 / 2)"
  by (simp add: constructor_stats_value jsum_def)

text \<open>The two sums and the two totals on the store \<open>growth_weeks\<close>: 250 and 2.5 hours.\<close>

lemma growth_totals:
  "jsum (map (\<lambda>kv. tb_cost (snd kv)) (st_costByType growth_stats)) = Fin 250
   \<and> jsum (map (\<lambda>kv. tb_hours (snd kv)) (st_costByType growth_stats)) = Fin (5 / 2)
   \<and> st_totalCost growth_stats = Fin 250 \<and> st_totalHours growth_stats = Fin (5 / 2)"
  by (simp add: growth_stats_value jsum_def)

text \<open>A cost below zero is what \<open>addMeeting\<close> computes for a duration below zero.\<close>

lemma negative_duration_cost:
  "addMeeting_calculatedCost json_host (getRoleRates None)
     \<lparr>p_durationMinutes = Some (- 60), p_attendeeCount = None,
      p_attendeeRoles = Some json_engineer\<rparr> = Fin (- 75)"
  by (simp add: addMeeting_calculatedCost_def json_host_def json_engineer_def sample_host_def
      getRoleRates_def defaultRates_def find_rate_def parseInt_or_def jor_def truthy_def)

lemma trend_percentage_Fin:
  assumes "2 \<le> length tr"
    and "pb_totalCost (tr ! (length tr - 1)) = Fin c"
    and "pb_totalCost (tr ! (length tr - 2)) = Fin p"
  shows "trend_percentage tr = (if 0 < p then Fin ((c - p) / p * 100) else Fin 0)"
  using assms
  by (simp add: trend_percentage_def Let_def jor_def truthy_def jsub_def)

text \<open>
  C5, as stated, fails where the second-to-last bucket costs less than nothing: on
  \<open>refund_week\<close> the two weekly buckets cost minus 75 and 75, the earlier cost is not
  zero, the formula gives minus 200, and the trend percentage is 0.
\<close>

theorem C5_counterexample:
  "2 \<le> length (st_trends refund_stats)
   \<and> pb_totalCost (st_trends refund_stats ! (length (st_trends refund_stats) - 2)) = Fin (- 75)
   \<and> pb_totalCost (st_trends refund_stats ! (length (st_trends refund_stats) - 1)) = Fin 75
   \<and> Fin (- 75) \<noteq> Fin 0
   \<and> st_trendPercentage refund_stats = Fin 0
   \<and> jmul (jdiv (jsub (Fin 75) (Fin (- 75))) (Fin (- 75))) (Fin 100) = Fin (- 200)"
  by (simp add: refund_stats_value jsub_def)

text \<open>
  C5, amended: the weekly buckets of the snapshot have finite costs; with fewer than two
  buckets the trend percentage is 0; with at least two, it is
  \<open>(last - previous) / previous * 100\<close> when the cost of the second-to-last bucket is
  greater than zero, and 0 when that cost is zero or less. It is never \<open>NaN\<close> or
  infinite.
\<close>

theorem C5_trend_percentage:
  assumes "s = stats (getDashboardStats h now stored payload)"
    and "n = length (st_trends s)"
  shows "(n < 2 \<longrightarrow> st_trendPercentage s = Fin 0)
       \<and> (2 \<le> n \<longrightarrow>
            (\<exists>c p. pb_totalCost (st_trends s ! (n - 1)) = Fin c
                 \<and> pb_totalCost (st_trends s ! (n - 2)) = Fin p
                 \<and> st_trendPercentage s = (if 0 < p then Fin ((c - p) / p * 100) else Fin 0)))"
proof -
  obtain tr where fin: "list_all (\<lambda>b. is_fin (pb_totalCost b)) tr"
    and tr: "st_trends s = tr" and tp: "st_trendPercentage s = trend_percentage tr"
    using stats_getDashboardStats [of h now stored payload] assms(1)
    by (auto simp: Let_def)
  have small: "n < 2 \<longrightarrow> st_trendPercentage s = Fin 0"
    using assms(2) tr tp by (simp add: trend_percentage_def)
  have big: "\<exists>c p. pb_totalCost (st_trends s ! (n - 1)) = Fin c
                 \<and> pb_totalCost (st_trends s ! (n - 2)) = Fin p
                 \<and> st_trendPercentage s = (if 0 < p then Fin ((c - p) / p * 100) else Fin 0)"
    if n2: "2 \<le> n"
  proof -
    have "is_fin (pb_totalCost (tr ! (n - 1)))" "is_fin (pb_totalCost (tr ! (n - 2)))"
      using fin n2 assms(2) tr by (simp_all add: list_all_length)
    then obtain c p where cp: "pb_totalCost (tr ! (n - 1)) = Fin c"
        "pb_totalCost (tr ! (n - 2)) = Fin p"
      using is_fin_Fin by blast
    show ?thesis
      using trend_percentage_Fin [of tr c p] cp n2 assms(2) tr tp by auto
  qed
  show ?thesis using small big by blast
qed


text \<open>The amended C5 on \<open>growth_weeks\<close>: from 100 to 150, the trend is 50 percent.\<close>

theorem C5_witness:
  "length (st_trends growth_stats) = 2
   \<and> pb_totalCost (st_trends growth_stats ! 0) = Fin 100
   \<and> pb_totalCost (st_trends growth_stats ! 1) = Fin 150
   \<and> st_trendPercentage growth_stats = Fin ((150 - 100) / 100 * 100)"
proof -
  have tr: "length (st_trends growth_stats) = 2"
    "pb_totalCost (st_trends growth_stats ! 0) = Fin 100"
    "pb_totalCost (st_trends growth_stats ! 1) = Fin 150"
    by (simp_all add: growth_stats_value)
  from C5_trend_percentage [OF growth_stats_def refl] tr
  have "st_trendPercentage growth_stats = Fin ((150 - 100) / 100 * 100)"
    by simp
  with tr show ?thesis by simp
qed

text \<open>
  Where no stored cost is below zero, no weekly bucket costs less than nothing, so a cost
  that is not zero is positive: the trend percentage is then given by the formula whenever
  the cost of the second-to-last bucket is not zero.
\<close>

lemma group_loop_members:
  assumes "group_loop h g ms grouped = Inr r"
    and "list_all (\<lambda>kv. set (snd kv) \<subseteq> S) grouped"
    and "set ms \<subseteq> S"
  shows "list_all (\<lambda>kv. set (snd kv) \<subseteq> S) r"
  using assms
proof (induction ms arbitrary: grouped)
  case Nil
  then show ?case by simp
next
  case (Cons m ms)
  from Cons.prems(1) obtain key where
    key: "period_key g (Date_parse h (m_date m)) = Inr key"
    and rest: "group_loop h g ms
        (obj_set key ((case map_of grouped key of None \<Rightarrow> [] | Some ms \<Rightarrow> ms) @ [m]) grouped) = Inr r"
    by (auto split: sum.splits)
  have old: "set (case map_of grouped key of None \<Rightarrow> [] | Some ms \<Rightarrow> ms) \<subseteq> S"
  proof (cases "map_of grouped key")
    case None
    then show ?thesis by simp
  next
    case (Some old_ms)
    with map_of_list_all [OF Cons.prems(2), of key old_ms] show ?thesis by simp
  qed
  have "list_all (\<lambda>kv. set (snd kv) \<subseteq> S)
          (obj_set key ((case map_of grouped key of None \<Rightarrow> [] | Some ms \<Rightarrow> ms) @ [m]) grouped)"
    using old Cons.prems(3) by (intro list_all_obj_set [OF Cons.prems(2)]) simp
  from Cons.IH [OF rest this] Cons.prems(3) show ?case by simp
qed

lemma trends_nonneg:
  assumes "\<forall>m\<in>set ms. 0 \<le> val0 (m_calculatedCost m)"
    and "calculateCostTrends h ms g = Inr tr"
  shows "\<forall>b\<in>set tr. \<exists>c. pb_totalCost b = Fin c \<and> 0 \<le> c"
proof (cases "length ms = 0")
  case True
  with assms(2) show ?thesis by (simp add: calculateCostTrends_def)
next
  case False
  with assms(2) obtain grouped where
    g: "group_loop h g ms [] = Inr grouped"
    and tr: "tr = sort_key pb_period (map bucket_of grouped)"
    by (auto simp: calculateCostTrends_def groupMeetingsByPeriod_def split: sum.splits)
  have members: "list_all (\<lambda>kv. set (snd kv) \<subseteq> set ms) grouped"
    using group_loop_members [OF g] by simp
  have "\<exists>c. pb_totalCost (bucket_of kv) = Fin c \<and> 0 \<le> c" if "kv \<in> set grouped" for kv
  proof -
    from members that have "set (snd kv) \<subseteq> set ms" by (simp add: list_all_iff)
    with assms(1) have "0 \<le> (\<Sum>m\<leftarrow>snd kv. val0 (m_calculatedCost m))"
      by (intro sum_list_nonneg) auto
    then show ?thesis
      by (cases kv) (simp add: bucket_of_def sum_cost_Fin)
  qed
  then show ?thesis by (auto simp: tr)
qed

lemma trend_percentage_nonnegative_costs:
  assumes "\<forall>m\<in>set ms. 0 \<le> val0 (m_calculatedCost m)"
    and "s = stats (getDashboardStats h now (Some ms) payload)"
    and "n = length (st_trends s)" and "2 \<le> n"
    and "pb_totalCost (st_trends s ! (n - 2)) \<noteq> Fin 0"
  shows "st_trendPercentage s =
           jmul (jdiv (jsub (pb_totalCost (st_trends s ! (n - 1)))
                            (pb_totalCost (st_trends s ! (n - 2))))
                      (pb_totalCost (st_trends s ! (n - 2)))) (Fin 100)"
proof -
  let ?f = "filteredMeetings h now (case payload of None \<Rightarrow> ''last-month'' | Some r \<Rightarrow> r) ms"
  obtain tr where tr: "calculateCostTrends h ?f ''week'' = Inr tr"
    using trends_week by blast
  have "\<forall>m\<in>set ?f. 0 \<le> val0 (m_calculatedCost m)"
    using assms(1) by (simp add: filteredMeetings_def)
  from trends_nonneg [OF this tr]
  have nn: "\<forall>b\<in>set tr. \<exists>c. pb_totalCost b = Fin c \<and> 0 \<le> c" .
  have s: "st_trends s = tr" "st_trendPercentage s = trend_percentage tr"
    using tr assms(2) by (simp_all add: getDashboardStats_def Let_def)
  have "tr ! (n - 1) \<in> set tr" "tr ! (n - 2) \<in> set tr"
    using assms(3,4) s by simp_all
  with nn obtain c p where cp: "pb_totalCost (tr ! (n - 1)) = Fin c"
      "pb_totalCost (tr ! (n - 2)) = Fin p" "0 \<le> p"
    by blast
  with assms(5) s have "0 < p" by auto
  with trend_percentage_Fin [of tr c p] cp assms(3,4) s show ?thesis
    by (simp add: jsub_def)
qed

section \<open>Properties of the velocity correlator\<close>

text \<open>The inequality of Cauchy and Schwarz for two series indexed by a list.\<close>

lemma cauchy_schwarz_list:
  fixes u v :: "'a \<Rightarrow> real"
  shows "(\<Sum>s\<leftarrow>ss. u s * v s)\<^sup>2 \<le> (\<Sum>s\<leftarrow>ss. u s * u s) * (\<Sum>s\<leftarrow>ss. v s * v s)"
proof -
  define P where "P = (\<Sum>s\<leftarrow>ss. u s * u s)"
  define Q where "Q = (\<Sum>s\<leftarrow>ss. u s * v s)"
  define R where "R = (\<Sum>s\<leftarrow>ss. v s * v s)"
  have P0: "0 \<le> P" unfolding P_def by (rule sum_list_nonneg) auto
  have "(\<Sum>s\<leftarrow>ss. (P * v s - Q * u s)\<^sup>2) =
        (\<Sum>s\<leftarrow>ss. P * P * (v s * v s) - 2 * P * Q * (u s * v s) + Q * Q * (u s * u s))"
    by (intro arg_cong [where f = sum_list] map_cong refl)
       (simp add: power2_eq_square algebra_simps)
  also have "\<dots> = P * P * R - 2 * P * Q * Q + Q * Q * P"
    by (simp add: sum_list_addf sum_list_subtractf sum_list_const_mult P_def Q_def R_def)
  finally have expand: "(\<Sum>s\<leftarrow>ss. (P * v s - Q * u s)\<^sup>2) = P * (P * R - Q * Q)"
    by (simp add: algebra_simps)
  have "0 \<le> (\<Sum>s\<leftarrow>ss. (P * v s - Q * u s)\<^sup>2)"
    by (rule sum_list_nonneg) auto
  with expand have nonneg: "0 \<le> P * (P * R - Q * Q)" by simp
  show ?thesis
  proof (cases "P = 0")
    case True
    have "\<forall>x\<in>set (map (\<lambda>s. u s * u s) ss). x = 0"
      using True unfolding P_def
      by (subst (asm) sum_list_nonneg_eq_0_iff) auto
    then have "\<forall>s\<in>set ss. u s = 0" by auto
    then have "(\<Sum>s\<leftarrow>ss. u s * v s) = 0"
      by (induction ss) auto
    then show ?thesis using True by (simp add: P_def)
  next
    case False
    with P0 have "0 < P" by simp
    with nonneg have "0 \<le> P * R - Q * Q"
      by (simp add: zero_le_mult_iff)
    then show ?thesis
      by (simp add: P_def Q_def R_def power2_eq_square)
  qed
qed

text \<open>Centring the two series on their sums.\<close>

lemma centred_products:
  fixes f g :: "'a \<Rightarrow> real" and ss :: "'a list"
  defines "n \<equiv> real (length ss)"
  shows "(\<Sum>s\<leftarrow>ss. (n * f s - (\<Sum>s\<leftarrow>ss. f s)) * (n * g s - (\<Sum>s\<leftarrow>ss. g s))) =
           n * (n * (\<Sum>s\<leftarrow>ss. f s * g s) - (\<Sum>s\<leftarrow>ss. f s) * (\<Sum>s\<leftarrow>ss. g s))"
proof -
  define F where "F = (\<Sum>s\<leftarrow>ss. f s)"
  define G where "G = (\<Sum>s\<leftarrow>ss. g s)"
  have "(\<Sum>s\<leftarrow>ss. (n * f s - F) * (n * g s - G)) =
        (\<Sum>s\<leftarrow>ss. n * n * (f s * g s) - n * G * f s - n * F * g s + F * G)"
    by (intro arg_cong [where f = sum_list] map_cong refl) (simp add: algebra_simps)
  also have "\<dots> = n * n * (\<Sum>s\<leftarrow>ss. f s * g s) - n * G * F - n * F * G + n * (F * G)"
    by (simp add: sum_list_addf sum_list_subtractf sum_list_const_mult sum_list_triv
        F_def G_def n_def)
  finally show ?thesis
    by (simp add: F_def G_def algebra_simps)
qed

lemma spread_nonneg: "0 \<le> spread f ss"
proof (cases "ss = []")
  case True
  then show ?thesis by (simp add: spread_def)
next
  case False
  then have n: "0 < real (length ss)" by simp
  have "0 \<le> (\<Sum>s\<leftarrow>ss. (real (length ss) * f s - (\<Sum>s\<leftarrow>ss. f s))
                       * (real (length ss) * f s - (\<Sum>s\<leftarrow>ss. f s)))"
    by (rule sum_list_nonneg) auto
  then have "0 \<le> real (length ss) * spread f ss"
    by (simp add: centred_products spread_def)
  with n show ?thesis by (simp add: zero_le_mult_iff)
qed

lemma numerator_bound: "(pearson_numerator ss)\<^sup>2 \<le> pearson_denominator ss"
proof (cases "ss = []")
  case True
  then show ?thesis
    by (simp add: pearson_numerator_def pearson_denominator_def spread_def)
next
  case False
  define n where "n = real (length ss)"
  have n: "0 < n" using False by (simp add: n_def)
  have "(\<Sum>s\<leftarrow>ss. (n * hours_of s - (\<Sum>s\<leftarrow>ss. hours_of s))
                 * (n * points_of s - (\<Sum>s\<leftarrow>ss. points_of s)))\<^sup>2
        \<le> (\<Sum>s\<leftarrow>ss. (n * hours_of s - (\<Sum>s\<leftarrow>ss. hours_of s))
                    * (n * hours_of s - (\<Sum>s\<leftarrow>ss. hours_of s)))
          * (\<Sum>s\<leftarrow>ss. (n * points_of s - (\<Sum>s\<leftarrow>ss. points_of s))
                    * (n * points_of s - (\<Sum>s\<leftarrow>ss. points_of s)))"
    by (rule cauchy_schwarz_list)
  then have "(n * pearson_numerator ss)\<^sup>2 \<le> (n * spread hours_of ss) * (n * spread points_of ss)"
    unfolding n_def centred_products pearson_numerator_def spread_def .
  then have "n\<^sup>2 * (pearson_numerator ss)\<^sup>2 \<le> n\<^sup>2 * pearson_denominator ss"
    by (simp add: power2_eq_square pearson_denominator_def algebra_simps)
  with n show ?thesis by simp
qed


text \<open>
  In exact arithmetic the formula of the function is between -1 and 1 wherever its
  denominator is not zero.
\<close>

lemma pearson_formula_in_range:
  assumes "pearson_denominator ss \<noteq> 0"
  shows "- 1 \<le> pearson_numerator ss / sqrt (pearson_denominator ss)
       \<and> pearson_numerator ss / sqrt (pearson_denominator ss) \<le> 1"
proof -
  have "0 \<le> pearson_denominator ss"
    by (simp add: pearson_denominator_def spread_nonneg)
  with assms have pos: "0 < sqrt (pearson_denominator ss)" by simp
  have "\<bar>pearson_numerator ss\<bar> \<le> sqrt (pearson_denominator ss)"
    using numerator_bound [of ss] by (rule real_le_rsqrt [OF power2_abs [THEN ord_eq_le_trans]])
  then have "- sqrt (pearson_denominator ss) \<le> pearson_numerator ss"
    and "pearson_numerator ss \<le> sqrt (pearson_denominator ss)"
    by (simp_all add: abs_le_iff)
  with pos show ?thesis
    by (simp add: pos_le_divide_eq pos_divide_le_eq)
qed

subsection \<open>Rounding to a double\<close>

text \<open>\<open>binade\<close> is the exponent of the power of two at or below its argument.\<close>

lemma binade_bounds:
  assumes "0 < a"
  shows "pow2 (binade a) \<le> a \<and> a < pow2 (binade a + 1)"
proof (cases "1 \<le> a")
  case True
  define n where "n = nat \<lfloor>a\<rfloor>"
  define k where "k = floorlog 2 n"
  have n0: "0 < n" using True by (simp add: n_def)
  have "real n = real_of_int \<lfloor>a\<rfloor>" using True by (simp add: n_def)
  then have na: "real n \<le> a" "a < real n + 1" by linarith+
  have k: "2 ^ (k - 1) \<le> n" "n < 2 ^ k"
    using floorlog_bounds [of n 2] n0 by (simp_all add: k_def)
  have k0: "0 < k" using n0 by (simp add: k_def floorlog_def)
  have b: "binade a = int k - 1" using True by (simp add: binade_def n_def k_def)
  have "(2::real) ^ (k - 1) \<le> real n"
    using of_nat_mono [OF k(1), where 'a = real] by simp
  then have lo: "2 ^ (k - 1) \<le> a" using na(1) by linarith
  have "Suc n \<le> 2 ^ k" using k(2) by simp
  then have "real n + 1 \<le> 2 ^ k"
    using of_nat_mono [of "Suc n" "2 ^ k", where 'a = real] by simp
  then have hi: "a < 2 ^ k" using na(2) by linarith
  have e1: "pow2 (binade a) = 2 ^ (k - 1)"
    using k0 by (simp add: b pow2_def nat_diff_distrib)
  have e2: "pow2 (binade a + 1) = 2 ^ k" by (simp add: b pow2_def)
  show ?thesis unfolding e1 e2 using lo hi by blast
next
  case False
  define t where "t = 1 / a"
  have t1: "1 < t" using False assms by (simp add: t_def)
  define j where "j = nat (\<lceil>t\<rceil> - 1)"
  define k where "k = floorlog 2 j"
  have c: "2 \<le> \<lceil>t\<rceil>" using t1 by linarith
  have j0: "0 < j" using c by (simp add: j_def)
  have "real j = real_of_int \<lceil>t\<rceil> - 1" using c by (simp add: j_def)
  then have jt: "real j < t" "t \<le> real j + 1" by linarith+
  have k: "2 ^ (k - 1) \<le> j" "j < 2 ^ k"
    using floorlog_bounds [of j 2] j0 by (simp_all add: k_def)
  have k0: "0 < k" using j0 by (simp add: k_def floorlog_def)
  have b: "binade a = - int k" using False by (simp add: binade_def j_def k_def t_def)
  have "(2::real) ^ (k - 1) \<le> real j"
    using of_nat_mono [OF k(1), where 'a = real] by simp
  then have lo: "2 ^ (k - 1) < t" using jt(1) by linarith
  have "Suc j \<le> 2 ^ k" using k(2) by simp
  then have "real j + 1 \<le> 2 ^ k"
    using of_nat_mono [of "Suc j" "2 ^ k", where 'a = real] by simp
  then have hi: "t \<le> 2 ^ k" using jt(2) by linarith
  have e1: "pow2 (binade a) = 1 / 2 ^ k" using k0 by (simp add: b pow2_def)
  have e2: "pow2 (binade a + 1) = 1 / 2 ^ (k - 1)"
    using k0 by (cases k) (simp_all add: b pow2_def)
  have a: "a = 1 / t" using assms by (simp add: t_def)
  have "1 / 2 ^ k \<le> 1 / t" using hi t1 by (intro divide_left_mono) simp_all
  then have l: "1 / 2 ^ k \<le> a" by (simp only: a)
  have "1 / t < 1 / 2 ^ (k - 1)" using lo t1 by (intro divide_strict_left_mono) simp_all
  then have u: "a < 1 / 2 ^ (k - 1)" by (simp only: a)
  show ?thesis unfolding e1 e2 using l u by blast
qed

text \<open>\<open>nearest_even\<close> is an integer at most one half away.\<close>

lemma nearest_even_close: "\<bar>real_of_int (nearest_even q) - q\<bar> \<le> 1 / 2"
  unfolding nearest_even_def Let_def by (auto split: if_splits)

text \<open>
  Three doubles: 0.3 is \<open>5404319552844595 / 2^54\<close>, 0.1 is \<open>3602879701896397 / 2^55\<close>,
  and the sum of the doubles 0.1 and 0.2 is \<open>5404319552844596 / 2^54\<close>, one unit in the
  last place above 0.3.
\<close>

lemma double_values:
  "round64 0.3 = Fin (5404319552844595 / 18014398509481984)
   \<and> round64 0.1 = Fin (3602879701896397 / 36028797018963968)
   \<and> dadd (round64 0.1) (round64 0.2) = Fin (5404319552844596 / 18014398509481984)"
  by (simp add: dadd_def round64_def binade_def pow2_def nearest_even_def Let_def
      compute_floorlog)

subsection \<open>A constant series\<close>

text \<open>
  On \<open>flat_hours\<close> the sum of the six hours is \<open>8106479329266893 / 2^52\<close>, a little
  above 1.8, and \<open>n * sumX2 - sumX ** 2\<close> comes out at \<open>- 1 / 2^50\<close>, below zero.
\<close>

lemma flat_hours_spread:
  "foldl (\<lambda>a b. dadd a b) (Fin 0) (map (\<lambda>s. rnd (num_or0 (totalMeetingHours s))) flat_hours)
     = Fin (8106479329266893 / 4503599627370496)
   \<and> dsub (dmul (Fin 6)
               (foldl (\<lambda>sum x. dadd sum (dmul x x)) (Fin 0)
                  (map (\<lambda>s. rnd (num_or0 (totalMeetingHours s))) flat_hours)))
            (dsq (foldl (\<lambda>a b. dadd a b) (Fin 0)
                    (map (\<lambda>s. rnd (num_or0 (totalMeetingHours s))) flat_hours)))
     = Fin (- (1 / 2 ^ 50))"
  by (simp add: flat_hours_def num_or0_def jor_def truthy_def dadd_def dsub_def dmul_def
      dsq_def jsub_def round64_def binade_def pow2_def nearest_even_def Let_def
      compute_floorlog)

text \<open>
  C6: \<open>flat_hours\<close> has six snapshots and a constant series of hours, so its Pearson
  denominator is zero. In doubles the product of the two spreads is below zero,
  \<open>Math.sqrt\<close> gives \<open>NaN\<close>, \<open>NaN === 0\<close> is false, and the function returns the
  quotient by \<open>NaN\<close>: \<open>NaN\<close>, which is neither 0 nor a number between -1 and 1.
\<close>

theorem C6_constant_hours_give_NaN:
  "3 \<le> length flat_hours
   \<and> pearson_denominator flat_hours = 0
   \<and> calculateCorrelation flat_hours = NaN"
proof -
  have "calculateCorrelation flat_hours = NaN"
    by (simp add: calculateCorrelation_def flat_hours_def Let_def num_or0_def jor_def
        truthy_def dadd_def dsub_def dmul_def ddiv_def dsqrt_def dsq_def jsub_def jseq_def
        round64_def binade_def pow2_def nearest_even_def compute_floorlog inf_of_sign_def
        enumerate_eq_zip)
  moreover have "pearson_denominator flat_hours = 0"
    by (simp add: pearson_denominator_def spread_def flat_hours_def hours_of_def val0_def)
  moreover have "3 \<le> length flat_hours"
    by (simp add: flat_hours_def)
  ultimately show ?thesis by blast
qed

end
